theory Spec2Isabelle
  imports Complex_Main
begin

section \<open>Crane runway beam design: a model of CraneRunwayProV6.py\<close>

text \<open>
  The program computes with Python floats. They are modelled by the real numbers, so
  every statement below is about the exact arithmetic the formulas denote; rounding is
  outside the model. What Python raises is kept as a value: a function that may raise
  returns \<open>error + 'a\<close>, with \<open>Inl\<close> the exception.
\<close>

subsection \<open>Python arithmetic that can raise\<close>

datatype error = ZeroDivisionError | ValueError | TypeError

text \<open>Sequencing of fallible computations: the first exception ends the evaluation.\<close>

definition bnd :: "error + 'a \<Rightarrow> ('a \<Rightarrow> error + 'b) \<Rightarrow> error + 'b" where
  "bnd m f = (case m of Inl e \<Rightarrow> Inl e | Inr v \<Rightarrow> f v)"

text \<open>\<^verbatim>\<open>a / b\<close> on floats raises ZeroDivisionError when the divisor is zero.\<close>

definition py_div :: "real \<Rightarrow> real \<Rightarrow> error + real" where
  "py_div a b = (if b = 0 then Inl ZeroDivisionError else Inr (a / b))"

text \<open>\<^verbatim>\<open>math.sqrt(x)\<close> raises ValueError for a negative argument.\<close>

definition py_sqrt :: "real \<Rightarrow> error + real" where
  "py_sqrt x = (if x < 0 then Inl ValueError else Inr (sqrt x))"

text \<open>
  \<^verbatim>\<open>sum(f(p) for p in ps)\<close> where each term may raise: the terms are evaluated
  from left to right and added to 0.
\<close>

fun sum_err :: "('a \<Rightarrow> error + real) \<Rightarrow> 'a list \<Rightarrow> real \<Rightarrow> error + real" where
  "sum_err f [] acc = Inr acc"
| "sum_err f (p # ps) acc = bnd (f p) (\<lambda>v. sum_err f ps (acc + v))"

subsection \<open>Material constants\<close>

definition E_STEEL :: real where "E_STEEL = 200000"
definition G_STEEL :: real where "G_STEEL = 77200"
definition GRAVITY :: real where "GRAVITY = 9.81"
definition RHO_STEEL :: real where "RHO_STEEL = 7850"

definition OMEGA_FLEX :: real where "OMEGA_FLEX = 1.67"
definition OMEGA_SHEAR :: real where "OMEGA_SHEAR = 1.50"
definition OMEGA_SHEAR_TFA :: real where "OMEGA_SHEAR_TFA = 1.67"
definition OMEGA_WLY :: real where "OMEGA_WLY = 1.50"
definition OMEGA_WCR :: real where "OMEGA_WCR = 2.00"

subsection \<open>CraneData\<close>

record CraneData =
  crane_id :: int
  capacity_tonnes :: real
  bridge_weight :: real
  trolley_weight :: real
  bridge_span :: real
  min_hook_approach :: real
  wheel_base :: real
  buffer_left :: real
  buffer_right :: real
  num_wheels :: int
  impact_v :: real
  impact_h :: real
  impact_l :: real
  wheel_spacing_12 :: real
  wheel_spacing_23 :: real
  wheel_spacing_34 :: real
  use_direct_input :: bool
  direct_max_wheel_load :: real
  direct_min_wheel_load :: real
  direct_lateral_load :: real

text \<open>The dataclass defaults.\<close>

definition CraneData_default :: CraneData where
  "CraneData_default =
     \<lparr>crane_id = 1, capacity_tonnes = 10, bridge_weight = 5, trolley_weight = 0.72,
      bridge_span = 15, min_hook_approach = 1, wheel_base = 2.2, buffer_left = 0.29,
      buffer_right = 0.29, num_wheels = 2, impact_v = 0.25, impact_h = 0.20,
      impact_l = 0.10, wheel_spacing_12 = 0, wheel_spacing_23 = 0, wheel_spacing_34 = 0,
      use_direct_input = False, direct_max_wheel_load = 0, direct_min_wheel_load = 0,
      direct_lateral_load = 0\<rparr>"

text \<open>
  \<^verbatim>\<open>get_wheel_positions_relative\<close>. In the generic branch the spacing
  \<^verbatim>\<open>wheel_base / (num_wheels - 1)\<close> is computed only when \<open>num_wheels > 1\<close>, so the
  divisor is never zero and the function never raises.
\<close>

definition get_wheel_positions_relative :: "CraneData \<Rightarrow> real list" where
  "get_wheel_positions_relative c =
     (if num_wheels c = 2 then [0, wheel_base c]
      else if num_wheels c = 4 then
        (if wheel_spacing_12 c > 0 \<and> wheel_spacing_23 c > 0 \<and> wheel_spacing_34 c > 0
         then [0, wheel_spacing_12 c, wheel_spacing_12 c + wheel_spacing_23 c,
               wheel_spacing_12 c + wheel_spacing_23 c + wheel_spacing_34 c]
         else (let spacing = wheel_base c / 3
               in [0, spacing, 2 * spacing, wheel_base c]))
      else if num_wheels c \<le> 1 then [0]
      else (let spacing = wheel_base c / of_int (num_wheels c - 1)
            in map (\<lambda>i. of_nat i * spacing) [0 ..< nat (num_wheels c)]))"

definition get_total_wheel_base :: "CraneData \<Rightarrow> real" where
  "get_total_wheel_base c =
     (let positions = get_wheel_positions_relative c
      in if length positions > 1 then last positions - hd positions else 0)"

text \<open>
  \<^verbatim>\<open>calc_wheel_loads\<close>. \<^verbatim>\<open>a or b\<close> is \<open>a\<close> unless \<open>a\<close> is zero. The statics branch
  divides by the bridge span (twice, for the maximum first) and then by the wheel count.
\<close>

definition calc_wheel_loads :: "CraneData \<Rightarrow> error + (real \<times> real)" where
  "calc_wheel_loads c =
     (if use_direct_input c \<and> direct_max_wheel_load c > 0
      then Inr (direct_max_wheel_load c,
                if direct_min_wheel_load c \<noteq> 0 then direct_min_wheel_load c
                else direct_max_wheel_load c * 0.2)
      else
        (let Lb = bridge_span c;
             e_min = min_hook_approach c;
             P_lift = capacity_tonnes c * GRAVITY;
             P_trolley = trolley_weight c * GRAVITY;
             P_bridge = bridge_weight c * GRAVITY;
             R_bridge_each = P_bridge / 2;
             P_moving = P_lift + P_trolley
         in bnd (py_div (P_moving * (Lb - e_min)) Lb) (\<lambda>q_max.
            bnd (py_div (P_moving * e_min) Lb) (\<lambda>q_min.
            bnd (py_div (R_bridge_each + q_max) (of_int (num_wheels c))) (\<lambda>w_max.
            bnd (py_div (R_bridge_each + q_min) (of_int (num_wheels c))) (\<lambda>w_min.
            Inr (w_max, w_min)))))))"

definition get_wheel_load_with_impact :: "CraneData \<Rightarrow> error + real" where
  "get_wheel_load_with_impact c =
     bnd (calc_wheel_loads c) (\<lambda>(max_wl, _). Inr (max_wl * (1 + impact_v c)))"

definition get_min_wheel_load_with_impact :: "CraneData \<Rightarrow> error + real" where
  "get_min_wheel_load_with_impact c =
     bnd (calc_wheel_loads c) (\<lambda>(_, min_wl). Inr (min_wl * (1 + impact_v c)))"

definition get_lateral_load_per_wheel :: "CraneData \<Rightarrow> error + real" where
  "get_lateral_load_per_wheel c =
     (if use_direct_input c \<and> direct_lateral_load c > 0
      then Inr (direct_lateral_load c)
      else
        (let P_lift = capacity_tonnes c * GRAVITY;
             P_trolley = trolley_weight c * GRAVITY;
             H_total = impact_h c * (P_lift + P_trolley)
         in py_div H_total (2 * of_int (num_wheels c))))"

definition get_longitudinal_force :: "CraneData \<Rightarrow> error + real" where
  "get_longitudinal_force c =
     bnd (calc_wheel_loads c) (\<lambda>(max_wl, _).
       Inr (impact_l c * max_wl * of_int (num_wheels c)))"

subsection \<open>Moving-load envelope engine\<close>

record LoadCaseResult =
  step_position :: real
  wheel_positions :: "real list"
  wheel_loads :: "real list"
  R_A :: real
  R_B :: real
  M_max :: real
  M_max_location :: real
  V_max :: real
  moments_at_wheels :: "real list"

text \<open>
  \<^verbatim>\<open>CriticalResults\<close>. Three of its fields have the names of fields of
  \<^verbatim>\<open>LoadCaseResult\<close> (\<^verbatim>\<open>M_max\<close>, \<^verbatim>\<open>M_max_location\<close>, \<^verbatim>\<open>V_max\<close>); they carry
  the suffix \<open>_crit\<close> here.
\<close>

record CriticalResults =
  M_max_crit :: real
  M_max_position :: real
  M_max_location_crit :: real
  M_max_R_A :: real
  M_max_R_B :: real
  M_max_wheel_positions :: "real list"
  R_A_max :: real
  R_A_max_position :: real
  R_A_max_wheel_positions :: "real list"
  R_A_max_moment :: real
  R_A_max_R_B :: real
  R_B_max :: real
  R_B_max_position :: real
  R_B_max_wheel_positions :: "real list"
  R_B_max_moment :: real
  R_B_max_R_A :: real
  R_A_min :: real
  R_B_min :: real
  V_max_crit :: real
  all_results :: "LoadCaseResult list"

text \<open>\<^verbatim>\<open>CriticalResults()\<close>: every number 0.0, every list empty.\<close>

definition CriticalResults_default :: CriticalResults where
  "CriticalResults_default =
     \<lparr>M_max_crit = 0, M_max_position = 0, M_max_location_crit = 0, M_max_R_A = 0,
      M_max_R_B = 0, M_max_wheel_positions = [],
      R_A_max = 0, R_A_max_position = 0, R_A_max_wheel_positions = [],
      R_A_max_moment = 0, R_A_max_R_B = 0,
      R_B_max = 0, R_B_max_position = 0, R_B_max_wheel_positions = [],
      R_B_max_moment = 0, R_B_max_R_A = 0,
      R_A_min = 0, R_B_min = 0, V_max_crit = 0, all_results = []\<rparr>"

text \<open>
  The loop of \<^verbatim>\<open>get_crane_group_geometry\<close> over the cranes: \<open>cur\<close> is
  \<^verbatim>\<open>current_pos\<close>, \<open>rp\<close> and \<open>wl\<close> are the two lists the loop appends to. The gap to
  the next crane is added only when there is a next crane.
\<close>

fun geometry_loop ::
  "CraneData list \<Rightarrow> real \<Rightarrow> real list \<Rightarrow> real list \<Rightarrow> error + (real list \<times> real list)" where
  "geometry_loop [] cur rp wl = Inr (rp, wl)"
| "geometry_loop (c # cs) cur rp wl =
     bnd (get_wheel_load_with_impact c) (\<lambda>Pv.
       let crane_wheel_positions = get_wheel_positions_relative c;
           rp' = rp @ map (\<lambda>w_pos. cur + w_pos) crane_wheel_positions;
           wl' = wl @ map (\<lambda>w_pos. Pv) crane_wheel_positions
       in (case cs of
             [] \<Rightarrow> Inr (rp', wl')
           | nxt # _ \<Rightarrow>
               (let gap = buffer_right c + buffer_left nxt;
                    crane_total_length = get_total_wheel_base c
                in geometry_loop cs (cur + (crane_total_length + gap)) rp' wl')))"

definition get_crane_group_geometry ::
  "CraneData list \<Rightarrow> error + (real list \<times> real list \<times> real)" where
  "get_crane_group_geometry cranes =
     bnd (geometry_loop cranes 0 [] []) (\<lambda>(rel_positions, wheel_loads).
       Inr (rel_positions, wheel_loads,
            if rel_positions \<noteq> [] then last rel_positions - hd rel_positions else 0))"

text \<open>
  The moment at section \<open>x\<close>: \<^verbatim>\<open>M = R_A * x\<close>, then for each wheel left of \<open>x\<close>
  (strictly) \<^verbatim>\<open>M -= P_j * (x - x_j)\<close>, in the order of the wheels.
\<close>

definition moment_at :: "real \<Rightarrow> real \<Rightarrow> real list \<Rightarrow> real list \<Rightarrow> real" where
  "moment_at RA x abs_positions loads =
     foldl (\<lambda>M (x_j, P_j). if x_j < x then M - P_j * (x - x_j) else M)
           (RA * x) (zip abs_positions loads)"

text \<open>\<^verbatim>\<open>np.argmax\<close>: the index of the first maximum; it raises ValueError on an empty
  sequence.\<close>

fun argmax_from :: "real list \<Rightarrow> nat \<Rightarrow> nat \<Rightarrow> real \<Rightarrow> nat" where
  "argmax_from [] i best_i best = best_i"
| "argmax_from (v # vs) i best_i best =
     (if v > best then argmax_from vs (Suc i) i v else argmax_from vs (Suc i) best_i best)"

definition np_argmax :: "real list \<Rightarrow> error + nat" where
  "np_argmax vs = (case vs of [] \<Rightarrow> Inl ValueError | v # rest \<Rightarrow> Inr (argmax_from rest 1 0 v))"

definition analyze_single_position ::
  "real \<Rightarrow> real \<Rightarrow> real list \<Rightarrow> real list \<Rightarrow> error + LoadCaseResult" where
  "analyze_single_position L first_wheel_pos rel_positions loads =
     (let abs_positions = map (\<lambda>rel. first_wheel_pos + rel) rel_positions
      in bnd (sum_err (\<lambda>(P, x). py_div (P * (L - x)) L) (zip loads abs_positions) 0) (\<lambda>RA.
         bnd (sum_err (\<lambda>(P, x). py_div (P * x) L) (zip loads abs_positions) 0) (\<lambda>RB.
           let moments = map (\<lambda>x_i. moment_at RA x_i abs_positions loads) abs_positions;
               x_mid = L / 2;
               M_mid = moment_at RA x_mid abs_positions loads;
               all_moments = moments @ [M_mid];
               all_locations = abs_positions @ [x_mid]
           in bnd (np_argmax all_moments) (\<lambda>max_idx.
                Inr \<lparr>step_position = first_wheel_pos,
                     wheel_positions = abs_positions,
                     wheel_loads = loads,
                     R_A = RA,
                     R_B = RB,
                     M_max = all_moments ! max_idx,
                     M_max_location = all_locations ! max_idx,
                     V_max = max RA RB,
                     moments_at_wheels = moments\<rparr>))))"

text \<open>
  The stepping loop \<^verbatim>\<open>while current_pos <= end_pos + 0.001\<close>. Nothing in the source
  bounds the number of rounds (a step size of zero never leaves the loop), so the loop is
  a partial function: \<open>None\<close> is a run that does not end, \<open>Some (Inl e)\<close> a run that
  raises \<open>e\<close>, \<open>Some (Inr rs)\<close> the list \<^verbatim>\<open>all_results\<close>.
\<close>

partial_function (option) stepping ::
  "real \<Rightarrow> real \<Rightarrow> real \<Rightarrow> real list \<Rightarrow> real list \<Rightarrow> real \<Rightarrow> LoadCaseResult list
     \<Rightarrow> (error + LoadCaseResult list) option" where
  "stepping L step_size end_pos rel_positions loads current_pos acc =
     (if current_pos \<le> end_pos + 0.001
      then (case analyze_single_position L current_pos rel_positions loads of
              Inl e \<Rightarrow> Some (Inl e)
            | Inr result \<Rightarrow>
                stepping L step_size end_pos rel_positions loads
                  (current_pos + step_size) (acc @ [result]))
      else Some (Inr acc))"

text \<open>
  \<^verbatim>\<open>max(range(len(xs)), key=...)\<close> and \<^verbatim>\<open>min(range(len(xs)), key=...)\<close>: the
  first index whose key is largest (smallest). Both are called on a non-empty list only.
\<close>

fun first_best_from ::
  "(real \<Rightarrow> real \<Rightarrow> bool) \<Rightarrow> real list \<Rightarrow> nat \<Rightarrow> nat \<Rightarrow> real \<Rightarrow> nat" where
  "first_best_from better [] i best_i best = best_i"
| "first_best_from better (v # vs) i best_i best =
     (if better v best then first_best_from better vs (Suc i) i v
      else first_best_from better vs (Suc i) best_i best)"

definition index_max :: "('a \<Rightarrow> real) \<Rightarrow> 'a list \<Rightarrow> nat" where
  "index_max key xs =
     (case map key xs of [] \<Rightarrow> 0 | v # vs \<Rightarrow> first_best_from (\<lambda>a b. a > b) vs 1 0 v)"

definition index_min :: "('a \<Rightarrow> real) \<Rightarrow> 'a list \<Rightarrow> nat" where
  "index_min key xs =
     (case map key xs of [] \<Rightarrow> 0 | v # vs \<Rightarrow> first_best_from (\<lambda>a b. a < b) vs 1 0 v)"

text \<open>The envelope reduction over a non-empty \<^verbatim>\<open>all_results\<close>; an empty list leaves the
  default object as it is.\<close>

definition extract_critical :: "LoadCaseResult list \<Rightarrow> CriticalResults" where
  "extract_critical rs =
     (if rs = [] then CriticalResults_default
      else
        (let idx_M = index_max M_max rs;
             idx_RA = index_max R_A rs;
             idx_RB = index_max R_B rs;
             idx_RA_min = index_min R_A rs;
             idx_RB_min = index_min R_B rs
         in \<lparr>M_max_crit = M_max (rs ! idx_M),
              M_max_position = step_position (rs ! idx_M),
              M_max_location_crit = M_max_location (rs ! idx_M),
              M_max_R_A = R_A (rs ! idx_M),
              M_max_R_B = R_B (rs ! idx_M),
              M_max_wheel_positions = wheel_positions (rs ! idx_M),
              R_A_max = R_A (rs ! idx_RA),
              R_A_max_position = step_position (rs ! idx_RA),
              R_A_max_wheel_positions = wheel_positions (rs ! idx_RA),
              R_A_max_moment = M_max (rs ! idx_RA),
              R_A_max_R_B = R_B (rs ! idx_RA),
              R_B_max = R_B (rs ! idx_RB),
              R_B_max_position = step_position (rs ! idx_RB),
              R_B_max_wheel_positions = wheel_positions (rs ! idx_RB),
              R_B_max_moment = M_max (rs ! idx_RB),
              R_B_max_R_A = R_A (rs ! idx_RB),
              R_A_min = R_A (rs ! idx_RA_min),
              R_B_min = R_B (rs ! idx_RB_min),
              V_max_crit = max (R_A (rs ! idx_RA)) (R_B (rs ! idx_RB)),
              all_results = rs\<rparr>))"

text \<open>\<^verbatim>\<open>xs[:n]\<close>: a negative \<open>n\<close> counts from the end.\<close>

definition py_slice_to :: "int \<Rightarrow> 'a list \<Rightarrow> 'a list" where
  "py_slice_to n xs = (if n < 0 then take (nat (int (length xs) + n)) xs else take (nat n) xs)"

text \<open>
  \<^verbatim>\<open>run_moving_load_analysis\<close>; \<open>num_cranes_on_beam = None\<close> is the default argument.
  The result is \<open>None\<close> when the stepping loop does not end.
\<close>

definition run_moving_load_analysis ::
  "real \<Rightarrow> CraneData list \<Rightarrow> real \<Rightarrow> int option \<Rightarrow> (error + CriticalResults) option" where
  "run_moving_load_analysis beam_span cranes step_size num_cranes_on_beam =
     (let L = beam_span;
          n = (case num_cranes_on_beam of None \<Rightarrow> int (length cranes) | Some k \<Rightarrow> k);
          active_cranes = py_slice_to n cranes
      in case get_crane_group_geometry active_cranes of
           Inl e \<Rightarrow> Some (Inl e)
         | Inr (rel_positions, loads, group_length) \<Rightarrow>
             if rel_positions = [] then Some (Inr CriticalResults_default)
             else
               (let start_pos = buffer_left (hd active_cranes);
                    end_pos0 = L - buffer_right (last active_cranes) - group_length;
                    end_pos = (if end_pos0 < start_pos then start_pos else end_pos0)
                in case stepping L step_size end_pos rel_positions loads start_pos [] of
                     None \<Rightarrow> None
                   | Some (Inl e) \<Rightarrow> Some (Inl e)
                   | Some (Inr rs) \<Rightarrow> Some (Inr (extract_critical rs))))"

subsection \<open>Section\<close>

record Section =
  name :: string
  sec_type :: string
  d :: real
  bf :: real
  tf :: real
  tw :: real
  r :: real
  bf_top :: real
  tf_top :: real
  bf_bot :: real
  tf_bot :: real
  hw :: real
  has_cap :: bool
  cap_name :: string
  cap_A :: real
  cap_Ix :: real
  cap_Iy :: real
  cap_d :: real
  cap_cy :: real
  A :: real
  Ix :: real
  Iy :: real
  Sx :: real
  Sy :: real
  Zx :: real
  rx :: real
  ry :: real
  rts :: real
  J :: real
  Cw :: real
  ho :: real
  y_bar :: real
  mass :: real

text \<open>\<^verbatim>\<open>Section()\<close>: the dataclass defaults.\<close>

definition Section_default :: Section where
  "Section_default =
     \<lparr>name = ''Custom'', sec_type = ''hot_rolled'', d = 0, bf = 0, tf = 0, tw = 0, r = 0,
      bf_top = 0, tf_top = 0, bf_bot = 0, tf_bot = 0, hw = 0,
      has_cap = False, cap_name = [], cap_A = 0, cap_Ix = 0, cap_Iy = 0, cap_d = 0, cap_cy = 0,
      A = 0, Ix = 0, Iy = 0, Sx = 0, Sy = 0, Zx = 0, rx = 0, ry = 0, rts = 0, J = 0, Cw = 0,
      ho = 0, y_bar = 0, mass = 0\<rparr>"

text \<open>
  The methods of \<^verbatim>\<open>Section\<close> assign to the fields of \<^verbatim>\<open>self\<close>; the model returns the
  updated section. A field that a method assigns and reads again later is bound to a
  primed variable, and the fields are written at the end in one update.

  \<^verbatim>\<open>_calc_common_props\<close> is six statements, in this order: the radii \<open>rx\<close>, \<open>ry\<close>, then
  \<open>Zx\<close>, \<open>J\<close>, \<open>Cw\<close>, \<open>rts\<close>, \<open>mass\<close>. Each of the functions \<open>common_\<dots>\<close> below is the value
  of one field after its statement. Only the statement for \<open>rts\<close> reads a field assigned
  by an earlier one (\<open>Cw\<close>). Nothing can raise: each quotient and each square root is taken
  under a test that makes the divisor and the argument positive.
\<close>

definition common_rx :: "Section \<Rightarrow> real" where
  "common_rx s = (if A s > 0 then (if Ix s > 0 then sqrt (Ix s / A s) else 0) else rx s)"

definition common_ry :: "Section \<Rightarrow> real" where
  "common_ry s = (if A s > 0 then (if Iy s > 0 then sqrt (Iy s / A s) else 0) else ry s)"

definition common_Zx :: "Section \<Rightarrow> real" where
  "common_Zx s = (if Zx s = 0 \<and> Sx s > 0 then Sx s * 1.12 else Zx s)"

definition common_J :: "Section \<Rightarrow> real" where
  "common_J s = (if J s = 0 then (2 * bf s * tf s ^ 3 + hw s * tw s ^ 3) / 3 else J s)"

definition common_Cw :: "Section \<Rightarrow> real" where
  "common_Cw s = (if Cw s = 0 \<and> ho s > 0 \<and> Iy s > 0 then Iy s * ho s ^ 2 / 4 else Cw s)"

definition common_rts :: "Section \<Rightarrow> real" where
  "common_rts s =
     (if rts s = 0 \<and> Sx s > 0 \<and> Iy s > 0 \<and> common_Cw s > 0
      then sqrt (sqrt (Iy s * common_Cw s) / Sx s)
      else rts s)"

definition common_mass :: "Section \<Rightarrow> real" where
  "common_mass s =
     (if mass s = 0 \<and> A s > 0
      then (let mass' = A s * RHO_STEEL / 1000000
            in if has_cap s \<and> cap_A s > 0 then mass' + cap_A s * RHO_STEEL / 1000000
               else mass')
      else mass s)"

definition calc_common_props :: "Section \<Rightarrow> Section" where
  "calc_common_props s =
     s\<lparr>rx := common_rx s, ry := common_ry s, Zx := common_Zx s, J := common_J s,
       Cw := common_Cw s, rts := common_rts s, mass := common_mass s\<rparr>"

text \<open>
  The first three statements of \<^verbatim>\<open>_calc_hot_rolled_props\<close>: \<open>hw\<close>, \<open>ho\<close> and the four
  flange fields are filled when \<open>hw\<close>, \<open>ho\<close>, \<open>bf_top\<close> are zero.
\<close>

definition hot_rolled_defaults :: "Section \<Rightarrow> Section" where
  "hot_rolled_defaults s =
     s\<lparr>hw := (if hw s = 0 then d s - 2 * tf s else hw s),
       ho := (if ho s = 0 then d s - tf s else ho s),
       bf_top := (if bf_top s = 0 then bf s else bf_top s),
       tf_top := (if bf_top s = 0 then tf s else tf_top s),
       bf_bot := (if bf_top s = 0 then bf s else bf_bot s),
       tf_bot := (if bf_top s = 0 then tf s else tf_bot s)\<rparr>"

text \<open>
  \<^verbatim>\<open>_calc_hot_rolled_props\<close>. With a cap channel it reads \<open>A\<close>, \<open>Ix\<close>, \<open>Iy\<close> and assigns
  to them; it divides by the total area and by the larger extreme-fibre distance, and
  either can be zero.
\<close>

definition calc_hot_rolled_props :: "Section \<Rightarrow> error + Section" where
  "calc_hot_rolled_props s0 =
     (let s = hot_rolled_defaults s0
      in if has_cap s \<and> cap_A s > 0
         then
           (let A_I = (if A s > 0 then A s else 2 * bf s * tf s + hw s * tw s);
                y_I = d s / 2;
                y_cap = d s + cap_cy s;
                total_A = A_I + cap_A s
            in bnd (py_div (A_I * y_I + cap_A s * y_cap) total_A) (\<lambda>y_bar'.
                 let I_I = (if Ix s > 0 then Ix s
                            else bf s * d s ^ 3 / 12 - (bf s - tw s) * hw s ^ 3 / 12);
                     I_cap = cap_Ix s + cap_A s * (y_cap - y_bar') ^ 2;
                     I_I_shifted = I_I + A_I * (y_I - y_bar') ^ 2;
                     Ix' = I_I_shifted + I_cap;
                     Iy' = (if Iy s > 0 then Iy s + cap_Iy s else Iy s);
                     c_top = (d s + cap_d s) - y_bar';
                     c_bot = y_bar'
                 in bnd (py_div Ix' (max c_top c_bot)) (\<lambda>Sx'.
                      Inr (calc_common_props
                             (s\<lparr>y_bar := y_bar', Ix := Ix', A := total_A, Iy := Iy',
                                Sx := Sx'\<rparr>)))))
         else Inr (calc_common_props s))"

text \<open>The first two statements of \<^verbatim>\<open>_calc_built_up_props\<close>; the web height is filled
  from the flange thicknesses as they are after the first statement.\<close>

definition built_up_defaults :: "Section \<Rightarrow> Section" where
  "built_up_defaults s =
     (let tf_top' = (if bf_top s = 0 then tf s else tf_top s);
          tf_bot' = (if bf_top s = 0 then tf s else tf_bot s)
      in s\<lparr>bf_top := (if bf_top s = 0 then bf s else bf_top s),
           tf_top := tf_top',
           bf_bot := (if bf_top s = 0 then bf s else bf_bot s),
           tf_bot := tf_bot',
           hw := (if hw s = 0 then d s - tf_top' - tf_bot' else hw s)\<rparr>)"

text \<open>
  The rest of \<^verbatim>\<open>_calc_built_up_props\<close> up to the call of the common step: every
  property is computed from the plate dimensions. With a cap the centroid divides by the
  total area; the section modulus divides by the larger extreme-fibre distance.
  \<^verbatim>\<open>c_top\<close> adds the cap depth when \<^verbatim>\<open>has_cap\<close> is set, whatever the cap area.
\<close>

definition built_up_derive :: "Section \<Rightarrow> error + Section" where
  "built_up_derive s =
     (let A_tf = bf_top s * tf_top s;
          A_bf = bf_bot s * tf_bot s;
          A_w = hw s * tw s;
          A_I = A_tf + A_bf + A_w;
          y_tf = tf_bot s + hw s + tf_top s / 2;
          y_bf = tf_bot s / 2;
          y_w = tf_bot s + hw s / 2;
          capped = (has_cap s \<and> cap_A s > 0);
          y_cap = d s + cap_cy s;
          A' = (if capped then A_I + cap_A s else A_I)
      in bnd (if capped
              then py_div (A_tf * y_tf + A_bf * y_bf + A_w * y_w + cap_A s * y_cap) A'
              else Inr ((A_tf * y_tf + A_bf * y_bf + A_w * y_w) / max A_I 1)) (\<lambda>y_bar'.
           let ho' = d s - (tf_top s + tf_bot s) / 2;
               I_tf = bf_top s * tf_top s ^ 3 / 12 + A_tf * (y_tf - y_bar') ^ 2;
               I_bf = bf_bot s * tf_bot s ^ 3 / 12 + A_bf * (y_bf - y_bar') ^ 2;
               I_w = tw s * hw s ^ 3 / 12 + A_w * (y_w - y_bar') ^ 2;
               I_cap = cap_Ix s + cap_A s * (y_cap - y_bar') ^ 2;
               Iy_plates = (tf_top s * bf_top s ^ 3 + tf_bot s * bf_bot s ^ 3
                            + hw s * tw s ^ 3) / 12;
               Ix' = (if capped then I_tf + I_bf + I_w + I_cap else I_tf + I_bf + I_w);
               Iy' = (if capped then Iy_plates + cap_Iy s else Iy_plates);
               c_top = (if has_cap s then d s + cap_d s else d s) - y_bar';
               c_bot = y_bar'
           in bnd (py_div Ix' (max c_top c_bot)) (\<lambda>Sx'.
                let Sy' = Iy' / max (max (bf_top s / 2) (bf_bot s / 2)) 1;
                    J' = (bf_top s * tf_top s ^ 3 + bf_bot s * tf_bot s ^ 3
                          + hw s * tw s ^ 3) / 3;
                    Cw' = (if ho' > 0 then Iy' * ho' ^ 2 / 4 else 1)
                in Inr (s\<lparr>A := A', y_bar := y_bar', ho := ho', Ix := Ix', Iy := Iy',
                          Sx := Sx', Sy := Sy', J := J', Cw := Cw'\<rparr>))))"

definition calc_built_up_props :: "Section \<Rightarrow> error + Section" where
  "calc_built_up_props s =
     bnd (built_up_derive (built_up_defaults s)) (\<lambda>t. Inr (calc_common_props t))"

definition calc_props :: "Section \<Rightarrow> error + Section" where
  "calc_props s =
     (if sec_type s = ''built_up'' then calc_built_up_props s else calc_hot_rolled_props s)"

text \<open>Two sections used as concrete inputs below: a hot-rolled shape with a cap channel
  and a doubly symmetric plate girder.\<close>

definition example_capped_hot_rolled :: Section where
  "example_capped_hot_rolled =
     Section_default\<lparr>d := 100, bf := 50, tf := 10, tw := 5, A := 1000, Ix := 1000000,
                     has_cap := True, cap_A := 1000, cap_d := 20, cap_cy := 10\<rparr>"

definition example_plate_girder :: Section where
  "example_plate_girder =
     Section_default\<lparr>sec_type := ''built_up'', d := 100, tw := 10, hw := 80,
                     bf_top := 50, tf_top := 10, bf_bot := 50, tf_bot := 10\<rparr>"

subsection \<open>Strength checks\<close>

text \<open>
  Each check returns a dict. A dict is modelled by a record whose fields are the keys,
  with a prefix naming the check where two dicts share a key.
\<close>

record Compactness =
  lambda_f :: real
  lambda_pf :: real
  lambda_rf :: real
  flange_class :: string
  lambda_w :: real
  lambda_pw :: real
  lambda_rw :: real
  web_class :: string
  compact :: bool

text \<open>\<^verbatim>\<open>math.sqrt(E_STEEL / Fy)\<close>: the quotient first, then the root.\<close>

definition sqrt_E_Fy :: "real \<Rightarrow> error + real" where
  "sqrt_E_Fy Fy = bnd (py_div E_STEEL Fy) py_sqrt"

definition check_compactness :: "Section \<Rightarrow> real \<Rightarrow> error + Compactness" where
  "check_compactness sec Fy =
     (let bf' = (if bf_top sec > 0 then max (bf_top sec) (bf_bot sec) else bf sec);
          tf' = (if tf_top sec > 0 then min (tf_top sec) (tf_bot sec) else tf sec);
          hw' = (if hw sec > 0 then hw sec else d sec - 2 * tf sec);
          lam_f = (if tf' > 0 then bf' / (2 * tf') else 999)
      in bnd (sqrt_E_Fy Fy) (\<lambda>rt.
           let lam_pf = 0.38 * rt;
               lam_rf = 1.0 * rt;
               fc = (if lam_f \<le> lam_pf then ''Compact''
                     else if lam_f \<le> lam_rf then ''Noncompact'' else ''Slender'');
               lam_w = (if tw sec > 0 then hw' / tw sec else 999);
               lam_pw = 3.76 * rt;
               lam_rw = 5.70 * rt;
               wc = (if lam_w \<le> lam_pw then ''Compact''
                     else if lam_w \<le> lam_rw then ''Noncompact'' else ''Slender'')
           in Inr \<lparr>lambda_f = lam_f, lambda_pf = lam_pf, lambda_rf = lam_rf,
                    flange_class = fc, lambda_w = lam_w, lambda_pw = lam_pw,
                    lambda_rw = lam_rw, web_class = wc,
                    compact = (fc = ''Compact'' \<and> wc = ''Compact'')\<rparr>))"

definition calc_Lp_Lr :: "Section \<Rightarrow> real \<Rightarrow> error + (real \<times> real)" where
  "calc_Lp_Lr sec Fy =
     bnd (if ry sec > 0 then Inr (ry sec)
          else if A sec > 0 then py_sqrt (Iy sec / A sec) else Inr 1) (\<lambda>ry'.
     bnd (sqrt_E_Fy Fy) (\<lambda>rt.
       let Lp = 1.76 * ry' * rt;
           ho' = (if ho sec > 0 then ho sec else d sec - tf sec);
           rts' = (if rts sec > 0 then rts sec else ry');
           c = 1
       in if Sx sec > 0 \<and> ho' > 0
          then (let term1 = J sec * c / (Sx sec * ho')
                in bnd (py_sqrt (term1 ^ 2 + 6.76 * (0.7 * Fy / E_STEEL) ^ 2)) (\<lambda>term2.
                   bnd (py_div E_STEEL (0.7 * Fy)) (\<lambda>q.
                   bnd (py_sqrt (term1 + term2)) (\<lambda>rt2.
                     Inr (Lp, 1.95 * rts' * q * rt2)))))
          else Inr (Lp, Lp * 3)))"

text \<open>
  The dict of \<^verbatim>\<open>calc_flexural_strength\<close>. The source appends
  \<^verbatim>\<open>f" + Rpg={Rpg:.3f}"\<close> to the label of a slender web; the model keeps the label
  without that suffix and holds the factor in \<open>flex_Rpg\<close> (\<open>None\<close> when nothing is
  appended). The character \<^verbatim>\<open>U+2264\<close> of the first label is its three UTF-8 bytes.
\<close>

record Flexure =
  flex_Mp :: real
  flex_My :: real
  flex_Lp :: real
  flex_Lr :: real
  flex_Lb :: real
  flex_Cb :: real
  flex_Mn :: real
  flex_Mn_allow :: real
  flex_limit_state :: string
  flex_Rpg :: "real option"

definition label_yielding :: string where
  "label_yielding = ''Yielding (Lb '' @ [CHR 0xE2, CHR 0x89, CHR 0xA4] @ '' Lp)''"

text \<open>The lateral-torsional part: the nominal moment and the label of the regime.\<close>

definition flexure_ltb ::
  "Section \<Rightarrow> real \<Rightarrow> real \<Rightarrow> real \<Rightarrow> real \<Rightarrow> real \<Rightarrow> real \<Rightarrow> error + (real \<times> string)" where
  "flexure_ltb sec Fy Lb Lp Lr Mp My =
     (let Cb = 1
      in if Lb \<le> Lp then Inr (Mp, label_yielding)
         else if Lb \<le> Lr then
           bnd (py_div ((Mp - 0.7 * My) * (Lb - Lp)) (Lr - Lp)) (\<lambda>q.
             Inr (min (Cb * (Mp - q)) Mp, ''Inelastic LTB''))
         else
           (let ho' = (if ho sec > 0 then ho sec else d sec - tf sec);
                rts' = (if rts sec > 0 then rts sec else ry sec);
                c = 1
            in bnd (if Sx sec > 0 \<and> ho' > 0
                    then (let term = J sec * c / (Sx sec * ho')
                          in bnd (py_div Lb rts') (\<lambda>sl.
                             bnd (py_div (Cb * pi ^ 2 * E_STEEL) (sl ^ 2)) (\<lambda>e.
                             bnd (py_sqrt (1 + 0.078 * term * sl ^ 2)) (\<lambda>rt.
                               Inr (e * rt)))))
                    else Inr (0.7 * Fy)) (\<lambda>Fcr.
                 Inr (min (Fcr * Sx sec / 1000000) Mp, ''Elastic LTB''))))"

definition calc_flexural_strength ::
  "Section \<Rightarrow> real \<Rightarrow> real \<Rightarrow> Compactness \<Rightarrow> error + Flexure" where
  "calc_flexural_strength sec Fy Lb cmp =
     bnd (calc_Lp_Lr sec Fy) (\<lambda>(Lp, Lr).
       let Mp = (if Zx sec > 0 then Fy * Zx sec / 1000000 else Fy * Sx sec * 1.12 / 1000000);
           My = Fy * Sx sec / 1000000
       in bnd (flexure_ltb sec Fy Lb Lp Lr Mp My) (\<lambda>(Mn0, ls0).
          bnd (if flange_class cmp = ''Noncompact''
               then bnd (py_div ((Mp - 0.7 * My) * (lambda_f cmp - lambda_pf cmp))
                                (lambda_rf cmp - lambda_pf cmp)) (\<lambda>q.
                      let Mn_flb = Mp - q
                      in if Mn_flb < Mn0 then Inr (Mn_flb, ''Flange Local Buckling'')
                         else Inr (Mn0, ls0))
               else Inr (Mn0, ls0)) (\<lambda>(Mn1, ls1).
          bnd (if web_class cmp = ''Slender''
               then (let bf' = (if bf_top sec > 0 then max (bf_top sec) (bf_bot sec) else bf sec);
                         tf' = (if tf_top sec > 0 then max (tf_top sec) (tf_bot sec) else tf sec)
                     in bnd (py_div (hw sec * tw sec) (bf' * tf')) (\<lambda>aw.
                        bnd (py_div aw (1200 + 300 * aw)) (\<lambda>f.
                        bnd (py_div (hw sec) (tw sec)) (\<lambda>sl.
                        bnd (sqrt_E_Fy Fy) (\<lambda>rt.
                          let Rpg = min 1 (max (1 - f * (sl - 5.7 * rt)) 0.5)
                          in Inr (Mn1 * Rpg, Some Rpg))))))
               else Inr (Mn1, None)) (\<lambda>(Mn2, rpg).
            Inr \<lparr>flex_Mp = Mp, flex_My = My, flex_Lp = Lp, flex_Lr = Lr, flex_Lb = Lb,
                 flex_Cb = 1, flex_Mn = Mn2, flex_Mn_allow = Mn2 / OMEGA_FLEX,
                 flex_limit_state = ls1, flex_Rpg = rpg\<rparr>))))"

record Shear =
  shear_Aw :: real
  shear_h_tw :: real
  shear_kv :: real
  shear_Cv1 :: real
  shear_Vn :: real
  shear_Vn_allow :: real
  shear_limit_state :: string

text \<open>
  \<^verbatim>\<open>calc_shear_strength\<close>. The two limits take \<^verbatim>\<open>math.sqrt(kv * E_STEEL / Fy)\<close>.
  In the elastic regime the divisor \<^verbatim>\<open>h_tw**2 * Fy\<close> can be zero only for \<open>Fy = 0\<close>,
  which has raised before. The tension-field branch divides by \<open>hw\<close> without a test.
\<close>

definition calc_shear_strength ::
  "Section \<Rightarrow> real \<Rightarrow> bool \<Rightarrow> real \<Rightarrow> bool \<Rightarrow> error + Shear" where
  "calc_shear_strength sec Fy has_stiff stiff_spa use_tfa =
     (let hw' = (if hw sec > 0 then hw sec else d sec - 2 * tf sec);
          Aw = hw' * tw sec;
          h_tw = (if tw sec > 0 then hw' / tw sec else 999);
          kv = (if has_stiff \<and> stiff_spa > 0 \<and> hw' > 0
                then (let a_h = stiff_spa / hw'
                      in if a_h \<le> 3 then 5 + 5 / a_h ^ 2 else 5.34)
                else 5.34)
      in bnd (py_div (kv * E_STEEL) Fy) (\<lambda>q.
         bnd (py_sqrt q) (\<lambda>rt.
           let limit1 = 1.10 * rt;
               limit2 = 1.37 * rt
           in bnd (if h_tw \<le> limit1 then Inr (1, ''Shear Yielding'')
                   else if h_tw \<le> limit2 then
                     bnd (py_div limit1 h_tw) (\<lambda>c. Inr (c, ''Inelastic Buckling''))
                   else
                     bnd (py_div (1.51 * kv * E_STEEL) (h_tw ^ 2 * Fy)) (\<lambda>c.
                       Inr (c, ''Elastic Buckling''))) (\<lambda>(Cv1, ls0).
              let Vn0 = 0.6 * Fy * Aw * Cv1 / 1000
              in bnd (if use_tfa \<and> has_stiff \<and> stiff_spa > 0 \<and> Cv1 < 1
                      then bnd (py_div stiff_spa hw') (\<lambda>a_h.
                             if 0.5 \<le> a_h \<and> a_h \<le> 3
                             then bnd (if h_tw > limit1 then py_div limit1 h_tw else Inr 1) (\<lambda>Cv2.
                                  bnd (py_sqrt (1 + a_h ^ 2)) (\<lambda>rt2.
                                  bnd (py_div (1 - Cv2) (1.15 * rt2)) (\<lambda>t.
                                    let Vn_tfa = 0.6 * Fy * Aw * (Cv2 + t) / 1000
                                    in if Vn_tfa > Vn0
                                       then Inr (Vn_tfa, ''Tension Field Action'', OMEGA_SHEAR_TFA)
                                       else Inr (Vn0, ls0, OMEGA_SHEAR))))
                             else Inr (Vn0, ls0, OMEGA_SHEAR))
                      else Inr (Vn0, ls0, OMEGA_SHEAR)) (\<lambda>(Vn, ls, omega).
                   Inr \<lparr>shear_Aw = Aw, shear_h_tw = h_tw, shear_kv = kv, shear_Cv1 = Cv1,
                        shear_Vn = Vn, shear_Vn_allow = Vn / omega,
                        shear_limit_state = ls\<rparr>)))))"

text \<open>The shear ratio is formed by the caller of \<^verbatim>\<open>calc_shear_strength\<close> (the page
  function), with the same guard as the other checks.\<close>

definition shear_ratio :: "real \<Rightarrow> Shear \<Rightarrow> real" where
  "shear_ratio V_design shear =
     (if shear_Vn_allow shear > 0 then V_design / shear_Vn_allow shear else 999)"

definition status_of :: "real \<Rightarrow> string" where
  "status_of ratio = (if ratio \<le> 1 then ''OK'' else ''NG'')"

record WebYielding =
  wly_k :: real
  wly_lb :: real
  wly_Rn :: real
  wly_Rn_allow :: real
  wly_R_applied :: real
  wly_ratio :: real
  wly_status :: string

text \<open>\<^verbatim>\<open>check_web_local_yielding\<close> divides by constants and, under its guard, by a
  positive capacity: it cannot raise.\<close>

definition check_web_local_yielding ::
  "Section \<Rightarrow> real \<Rightarrow> real \<Rightarrow> real \<Rightarrow> bool \<Rightarrow> WebYielding" where
  "check_web_local_yielding sec Fy R lb at_support =
     (let k = (if r sec > 0 then tf sec + r sec else tf sec * 1.5);
          Rn = (if at_support then Fy * tw sec * (2.5 * k + lb) / 1000
                else Fy * tw sec * (5 * k + lb) / 1000);
          Rn_allow = Rn / OMEGA_WLY;
          ratio = (if Rn_allow > 0 then R / Rn_allow else 999)
      in \<lparr>wly_k = k, wly_lb = lb, wly_Rn = Rn, wly_Rn_allow = Rn_allow, wly_R_applied = R,
          wly_ratio = ratio, wly_status = status_of ratio\<rparr>)"

record WebCrippling =
  wcr_lb :: real
  wcr_Rn :: real
  wcr_Rn_allow :: real
  wcr_R_applied :: real
  wcr_ratio :: real
  wcr_status :: string

text \<open>
  The crippling formula
  \<^verbatim>\<open>coef * tw**2 * (1 + k * (tw / tf)**1.5) * math.sqrt(E_STEEL * Fy * tf / tw) / 1000\<close>
  where \<open>k\<close> is \<open>kf (lb / d)\<close>. The quotients are taken in the order \<open>lb / d\<close>,
  \<open>tw / tf\<close>, \<open>\<dots> / tw\<close>, then the root. A negative base of \<^verbatim>\<open>**1.5\<close> gives a
  complex number in Python: nothing is raised at the power, and if the root does not
  raise either, the comparison \<^verbatim>\<open>Rn_allow > 0\<close> of the caller raises TypeError.
\<close>

definition crippling_Rn ::
  "real \<Rightarrow> (real \<Rightarrow> real) \<Rightarrow> Section \<Rightarrow> real \<Rightarrow> real \<Rightarrow> real \<Rightarrow> error + real" where
  "crippling_Rn coef kf sec tf' Fy lb =
     bnd (py_div lb (d sec)) (\<lambda>q.
     bnd (py_div (tw sec) tf') (\<lambda>b.
     bnd (py_div (E_STEEL * Fy * tf') (tw sec)) (\<lambda>a.
     bnd (py_sqrt a) (\<lambda>rt.
       if b < 0 then Inl TypeError
       else Inr (coef * tw sec ^ 2 * (1 + kf q * b powr 1.5) * rt / 1000)))))"

text \<open>The dict built from the nominal strength.\<close>

definition crippling_result :: "real \<Rightarrow> real \<Rightarrow> real \<Rightarrow> WebCrippling" where
  "crippling_result R lb Rn =
     (let Rn_allow = Rn / OMEGA_WCR;
          ratio = (if Rn_allow > 0 then R / Rn_allow else 999)
      in \<lparr>wcr_lb = lb, wcr_Rn = Rn, wcr_Rn_allow = Rn_allow, wcr_R_applied = R,
          wcr_ratio = ratio, wcr_status = status_of ratio\<rparr>)"

text \<open>The flange thickness the check uses.\<close>

definition crippling_tf :: "Section \<Rightarrow> real" where
  "crippling_tf sec = (if tf_top sec > 0 then min (tf_top sec) (tf_bot sec) else tf sec)"

text \<open>
  The body of \<^verbatim>\<open>check_web_crippling\<close>, with the coefficients of its two end-bearing
  branches as parameters, each a function of \<open>lb / d\<close>: in the program \<open>k_short\<close> is
  \<^verbatim>\<open>3 * (lb / sec.d)\<close> and \<open>k_long\<close> is \<^verbatim>\<open>4 * lb / sec.d - 0.2\<close>. At \<open>lb / d = 0.2\<close>
  both expressions are 0.6, so the number the program returns there is the same for
  either branch; with the coefficients kept apart, the branch that ran shows in the
  result.
\<close>

definition check_web_crippling_with ::
  "(real \<Rightarrow> real) \<Rightarrow> (real \<Rightarrow> real) \<Rightarrow> Section \<Rightarrow> real \<Rightarrow> real \<Rightarrow> real \<Rightarrow> bool
     \<Rightarrow> error + WebCrippling" where
  "check_web_crippling_with k_short k_long sec Fy R lb at_support =
     (let tf' = crippling_tf sec
      in bnd (if at_support
              then bnd (py_div lb (d sec)) (\<lambda>q.
                     if q \<le> 0.2 then crippling_Rn 0.40 k_short sec tf' Fy lb
                     else crippling_Rn 0.40 k_long sec tf' Fy lb)
              else crippling_Rn 0.80 (\<lambda>q. 3 * q) sec tf' Fy lb) (\<lambda>Rn.
           Inr (crippling_result R lb Rn)))"

definition check_web_crippling ::
  "Section \<Rightarrow> real \<Rightarrow> real \<Rightarrow> real \<Rightarrow> bool \<Rightarrow> error + WebCrippling" where
  "check_web_crippling sec Fy R lb at_support =
     check_web_crippling_with (\<lambda>q. 3 * q) (\<lambda>q. 4 * q - 0.2) sec Fy R lb at_support"

subsection \<open>Fatigue\<close>

record FatigueCategory =
  Cf :: real
  FTH :: real
  desc :: string

text \<open>The keys with a prime end in the apostrophe character, \<open>0x27\<close>.\<close>

definition FATIGUE_CATEGORIES :: "string \<rightharpoonup> FatigueCategory" where
  "FATIGUE_CATEGORIES =
     [''A'' \<mapsto> \<lparr>Cf = 25000000000, FTH = 165,
                desc = ''Base metal with rolled or cleaned surfaces''\<rparr>,
      ''B'' \<mapsto> \<lparr>Cf = 12000000000, FTH = 110,
                desc = ''Base metal at welded connections - continuous welds''\<rparr>,
      [CHR ''B'', CHR 0x27] \<mapsto> \<lparr>Cf = 6100000000, FTH = 83,
                desc = ''Base metal at groove weld transitions''\<rparr>,
      ''C'' \<mapsto> \<lparr>Cf = 4400000000, FTH = 69,
                desc = ''Welded stiffeners and attachments < 50mm long''\<rparr>,
      [CHR ''C'', CHR 0x27] \<mapsto> \<lparr>Cf = 4400000000, FTH = 83,
                desc = ''Base metal at toe of transverse stiffener welds''\<rparr>,
      ''D'' \<mapsto> \<lparr>Cf = 2200000000, FTH = 48,
                desc = ''Welded attachments 50-100mm long''\<rparr>,
      ''E'' \<mapsto> \<lparr>Cf = 1100000000, FTH = 31,
                desc = ''Welded attachments >100mm, cover plate ends''\<rparr>,
      [CHR ''E'', CHR 0x27] \<mapsto> \<lparr>Cf = 390000000, FTH = 18,
                desc = ''Base metal at ends of partial-length cover plates''\<rparr>,
      ''F'' \<mapsto> \<lparr>Cf = 15000000000, FTH = 55,
                desc = ''Shear stress on weld throat''\<rparr>]"

record Fatigue =
  fat_f_sr :: real
  fat_F_sr :: real
  fat_FTH :: real
  fat_Cf :: real
  fat_N_cycles :: int
  fat_category :: string
  fat_ratio :: real
  fat_status :: string

text \<open>
  \<^verbatim>\<open>check_fatigue\<close>. \<^verbatim>\<open>FATIGUE_CATEGORIES['E']\<close>, the default of \<^verbatim>\<open>.get\<close>, is
  evaluated before the lookup; the key \<^verbatim>\<open>'E'\<close> is in the table. \<^verbatim>\<open>Cf / N_cycles\<close>
  raises for zero cycles; a negative quotient makes \<^verbatim>\<open>** (1/3)\<close> complex and the
  \<^verbatim>\<open>max\<close> that follows raises TypeError.
\<close>

definition check_fatigue :: "Section \<Rightarrow> real \<Rightarrow> int \<Rightarrow> string \<Rightarrow> error + Fatigue" where
  "check_fatigue sec M_range N_cycles category =
     (let cat = (case FATIGUE_CATEGORIES category of
                   Some c \<Rightarrow> c
                 | None \<Rightarrow> the (FATIGUE_CATEGORIES ''E''));
          f_sr = (if Sx sec > 0 then M_range * 1000000 / Sx sec else 0)
      in bnd (py_div (Cf cat) (of_int N_cycles)) (\<lambda>q.
           if q < 0 then Inl TypeError
           else (let F_sr = max (q powr (1 / 3)) (FTH cat);
                     ratio = (if F_sr > 0 then f_sr / F_sr else 999)
                 in Inr \<lparr>fat_f_sr = f_sr, fat_F_sr = F_sr, fat_FTH = FTH cat, fat_Cf = Cf cat,
                          fat_N_cycles = N_cycles, fat_category = category,
                          fat_ratio = ratio, fat_status = status_of ratio\<rparr>)))"

text \<open>A stocky I-shape and the classification \<^verbatim>\<open>check_compactness\<close> gives it for
  \<open>Fy = 320\<close>, where \<open>sqrt (E / Fy) = 25\<close>.\<close>

definition example_compact_section :: Section where
  "example_compact_section =
     Section_default\<lparr>d := 340, bf := 200, tf := 20, tw := 10, hw := 300,
                     Sx := 900000, Zx := 1000000, ry := 10, ho := 320\<rparr>"

definition example_compactness :: Compactness where
  "example_compactness =
     \<lparr>lambda_f = 5, lambda_pf = 9.5, lambda_rf = 25, flange_class = ''Compact'',
      lambda_w = 30, lambda_pw = 94, lambda_rw = 142.5, web_class = ''Compact'',
      compact = True\<rparr>"

section \<open>Properties\<close>

subsection \<open>Wheel loads, reactions and the sweep\<close>

lemma bnd_Inr [simp]: "bnd (Inr v) f = f v"
  by (simp add: bnd_def)

lemma bnd_Inl [simp]: "bnd (Inl e) f = Inl e"
  by (simp add: bnd_def)

text \<open>
  Claim C6. With \<^verbatim>\<open>use_direct_input\<close> set and a positive direct maximum wheel load,
  \<^verbatim>\<open>calc_wheel_loads\<close> returns the supplied maximum and minimum as they are, except
  that a minimum of zero is replaced by 20% of the supplied maximum.
\<close>

theorem calc_wheel_loads_direct:
  assumes "use_direct_input c" and "direct_max_wheel_load c > 0"
  shows "calc_wheel_loads c =
           Inr (direct_max_wheel_load c,
                if direct_min_wheel_load c = 0 then 0.2 * direct_max_wheel_load c
                else direct_min_wheel_load c)"
  using assms by (simp add: calc_wheel_loads_def)

text \<open>Claim C6, at two cranes with a direct maximum of 50 kN: minimum left at zero
  (10 kN is returned), and minimum 12 kN (returned as it is).\<close>

theorem calc_wheel_loads_direct_witness:
  "calc_wheel_loads (CraneData_default\<lparr>use_direct_input := True, direct_max_wheel_load := 50\<rparr>)
     = Inr (50, 10)
   \<and> calc_wheel_loads (CraneData_default\<lparr>use_direct_input := True, direct_max_wheel_load := 50,
        direct_min_wheel_load := 12\<rparr>) = Inr (50, 12)"
  using calc_wheel_loads_direct [of "CraneData_default\<lparr>use_direct_input := True, direct_max_wheel_load := 50\<rparr>"]
    calc_wheel_loads_direct [of "CraneData_default\<lparr>use_direct_input := True, direct_max_wheel_load := 50,
        direct_min_wheel_load := 12\<rparr>"]
  by (simp add: CraneData_default_def)

lemma calc_wheel_loads_statics:
  assumes "\<not> (use_direct_input c \<and> direct_max_wheel_load c > 0)"
    and "bridge_span c \<noteq> 0" and "num_wheels c \<noteq> 0"
  shows "calc_wheel_loads c =
     Inr ((bridge_weight c * GRAVITY / 2
            + (capacity_tonnes c * GRAVITY + trolley_weight c * GRAVITY)
                * (bridge_span c - min_hook_approach c) / bridge_span c) / of_int (num_wheels c),
          (bridge_weight c * GRAVITY / 2
            + (capacity_tonnes c * GRAVITY + trolley_weight c * GRAVITY)
                * min_hook_approach c / bridge_span c) / of_int (num_wheels c))"
  using assms
  by (cases "use_direct_input c") (simp_all add: calc_wheel_loads_def Let_def py_div_def)

lemma calc_wheel_loads_raises:
  assumes "\<not> (use_direct_input c \<and> direct_max_wheel_load c > 0)"
    and "bridge_span c = 0 \<or> num_wheels c = 0"
  shows "calc_wheel_loads c = Inl ZeroDivisionError"
  using assms by (auto simp add: calc_wheel_loads_def Let_def py_div_def)

text \<open>
  Claim C9. For a crane that does not take the direct-override branch, the loads that
  \<^verbatim>\<open>calc_wheel_loads\<close> returns satisfy
  \<open>num_wheels * (max + min) = g * (bridge_weight + trolley_weight + capacity_tonnes)\<close>,
  whatever the hook approach and the bridge span. The function returns exactly when the
  bridge span and the wheel count are not zero; otherwise it raises ZeroDivisionError.
\<close>

theorem wheel_loads_conservation:
  assumes "\<not> (use_direct_input c \<and> direct_max_wheel_load c > 0)"
  shows "case calc_wheel_loads c of
           Inr (max_wl, min_wl) \<Rightarrow>
             bridge_span c \<noteq> 0 \<and> num_wheels c \<noteq> 0 \<and>
             of_int (num_wheels c) * (max_wl + min_wl)
               = GRAVITY * (bridge_weight c + trolley_weight c + capacity_tonnes c)
         | Inl e \<Rightarrow> e = ZeroDivisionError \<and> (bridge_span c = 0 \<or> num_wheels c = 0)"
proof (cases "bridge_span c = 0 \<or> num_wheels c = 0")
  case True
  then show ?thesis using calc_wheel_loads_raises [OF assms] by simp
next
  case False
  then have nz: "bridge_span c \<noteq> 0" "num_wheels c \<noteq> 0" by simp_all
  have "(bridge_span c - min_hook_approach c) / bridge_span c + min_hook_approach c / bridge_span c = 1"
    using nz by (simp add: field_simps)
  then have *: "(capacity_tonnes c * GRAVITY + trolley_weight c * GRAVITY)
                * (bridge_span c - min_hook_approach c) / bridge_span c
        + (capacity_tonnes c * GRAVITY + trolley_weight c * GRAVITY)
                * min_hook_approach c / bridge_span c
        = capacity_tonnes c * GRAVITY + trolley_weight c * GRAVITY"
    using nz by (simp add: field_simps)
  show ?thesis
    using nz * by (simp add: calc_wheel_loads_statics [OF assms nz] field_simps)
qed

text \<open>Claim C9, at the default crane (5 t bridge, 0.72 t trolley, 10 t capacity, two
  wheels per rail).\<close>

theorem wheel_loads_conservation_witness:
  "\<not> (use_direct_input CraneData_default \<and> direct_max_wheel_load CraneData_default > 0)
   \<and> calc_wheel_loads CraneData_default = Inr (3066933 / 50000, 788397 / 50000)
   \<and> 2 * (3066933 / 50000 + 788397 / 50000) = (9.81::real) * (5 + 0.72 + 10)"
  using wheel_loads_conservation [of CraneData_default]
  by (simp add: CraneData_default_def calc_wheel_loads_def Let_def py_div_def GRAVITY_def)

text \<open>
  Claim C4 as stated fails: the longitudinal force depends on the bridge self-weight.
  The default crane and the same crane with a 6 t bridge instead of 5 t, neither with
  direct input, have different longitudinal forces.
\<close>

theorem longitudinal_force_counterexample:
  "\<not> use_direct_input CraneData_default
   \<and> get_longitudinal_force CraneData_default = Inr (3066933 / 250000)
   \<and> get_longitudinal_force (CraneData_default\<lparr>bridge_weight := 6\<rparr>) = Inr (1594779 / 125000)"
  by (simp add: CraneData_default_def get_longitudinal_force_def calc_wheel_loads_def Let_def
      py_div_def GRAVITY_def)

text \<open>
  Claim C4, amended. Without direct input, \<^verbatim>\<open>get_longitudinal_force\<close> is the
  longitudinal factor times the whole maximum rail load, which is half the bridge
  self-weight plus the share \<open>(Lb - e_min) / Lb\<close> of the hoist and trolley load;
  \<^verbatim>\<open>get_lateral_load_per_wheel\<close> is the horizontal factor times the hoist and trolley
  load only, divided by twice the wheel count.
\<close>

theorem lateral_longitudinal_forces:
  assumes "\<not> use_direct_input c"
  shows "(bridge_span c \<noteq> 0 \<and> num_wheels c \<noteq> 0 \<longrightarrow>
            get_longitudinal_force c =
              Inr (impact_l c * GRAVITY *
                     (bridge_weight c / 2
                      + (capacity_tonnes c + trolley_weight c)
                          * (bridge_span c - min_hook_approach c) / bridge_span c)))
         \<and> (num_wheels c \<noteq> 0 \<longrightarrow>
            get_lateral_load_per_wheel c =
              Inr (impact_h c * GRAVITY * (capacity_tonnes c + trolley_weight c)
                     / (2 * of_int (num_wheels c))))"
proof (intro conjI impI)
  assume nz: "bridge_span c \<noteq> 0 \<and> num_wheels c \<noteq> 0"
  have nd: "\<not> (use_direct_input c \<and> direct_max_wheel_load c > 0)" using assms by simp
  show "get_longitudinal_force c =
              Inr (impact_l c * GRAVITY *
                     (bridge_weight c / 2
                      + (capacity_tonnes c + trolley_weight c)
                          * (bridge_span c - min_hook_approach c) / bridge_span c))"
    using nz by (simp add: get_longitudinal_force_def calc_wheel_loads_statics [OF nd] field_simps)
next
  assume "num_wheels c \<noteq> 0"
  then show "get_lateral_load_per_wheel c =
              Inr (impact_h c * GRAVITY * (capacity_tonnes c + trolley_weight c)
                     / (2 * of_int (num_wheels c)))"
    using assms by (simp add: get_lateral_load_per_wheel_def Let_def py_div_def field_simps)
qed

text \<open>Claim C4 amended, at the default crane.\<close>

theorem lateral_longitudinal_forces_witness:
  "get_longitudinal_force CraneData_default
     = Inr (0.10 * GRAVITY * (5 / 2 + (10 + 0.72) * (15 - 1) / 15))
   \<and> get_lateral_load_per_wheel CraneData_default
     = Inr (0.20 * GRAVITY * (10 + 0.72) / (2 * 2))"
  using lateral_longitudinal_forces [of CraneData_default]
  by (simp add: CraneData_default_def)

lemma sum_err_py_div:
  assumes "L \<noteq> 0"
  shows "sum_err (\<lambda>(P, x). py_div (g P x) L) ps acc
           = Inr (acc + sum_list (map (\<lambda>(P, x). g P x / L) ps))"
  using assms by (induction ps arbitrary: acc) (auto simp add: py_div_def)

lemma np_argmax_snoc: "\<exists>i. np_argmax (vs @ [v]) = Inr i"
  by (cases vs) (simp_all add: np_argmax_def)

lemma analyze_single_position_returns:
  assumes "L \<noteq> 0"
  shows "\<exists>res. analyze_single_position L p rels loads = Inr res
           \<and> step_position res = p
           \<and> R_A res = sum_list (map (\<lambda>(P, x). P * (L - x) / L)
                                   (zip loads (map (\<lambda>rel. p + rel) rels)))
           \<and> R_B res = sum_list (map (\<lambda>(P, x). P * x / L)
                                   (zip loads (map (\<lambda>rel. p + rel) rels)))"
proof -
  let ?abs = "map (\<lambda>rel. p + rel) rels"
  let ?RA = "sum_list (map (\<lambda>(P, x). P * (L - x) / L) (zip loads ?abs))"
  let ?ms = "map (\<lambda>x_i. moment_at ?RA x_i ?abs loads) ?abs"
  obtain i where i: "np_argmax (?ms @ [moment_at ?RA (L / 2) ?abs loads]) = Inr i"
    using np_argmax_snoc by blast
  show ?thesis
    using assms i
    by (simp add: analyze_single_position_def Let_def
        sum_err_py_div [where g = "\<lambda>P x. P * (L - x)"]
        sum_err_py_div [where g = "\<lambda>P x. P * x"])
qed

text \<open>
  Claim C1. For a span \<open>L > 0\<close>, any first-wheel position and any lists of relative
  positions and loads, \<^verbatim>\<open>analyze_single_position\<close> returns, and its reactions are
  \<open>R_A = \<Sum> P\<^sub>i (L - x\<^sub>i) / L\<close> and \<open>R_B = \<Sum> P\<^sub>i x\<^sub>i / L\<close> over the absolute positions
  \<open>x\<^sub>i\<close>; for a single load \<open>P\<close> the two reactions add up to \<open>P\<close>.
\<close>

theorem analyze_single_position_reactions:
  assumes "0 < L"
  shows "\<exists>res. analyze_single_position L p rels loads = Inr res
           \<and> R_A res = sum_list (map (\<lambda>(P, x). P * (L - x) / L)
                                   (zip loads (map (\<lambda>rel. p + rel) rels)))
           \<and> R_B res = sum_list (map (\<lambda>(P, x). P * x / L)
                                   (zip loads (map (\<lambda>rel. p + rel) rels)))
           \<and> (\<forall>P a. loads = [P] \<and> rels = [a] \<longrightarrow> R_A res + R_B res = P)"
proof -
  from assms have nz: "L \<noteq> 0" by simp
  obtain res where res: "analyze_single_position L p rels loads = Inr res"
      "R_A res = sum_list (map (\<lambda>(P, x). P * (L - x) / L)
                                   (zip loads (map (\<lambda>rel. p + rel) rels)))"
      "R_B res = sum_list (map (\<lambda>(P, x). P * x / L)
                                   (zip loads (map (\<lambda>rel. p + rel) rels)))"
    using analyze_single_position_returns [OF nz] by blast
  have "R_A res + R_B res = P" if "loads = [P]" "rels = [a]" for P a
  proof -
    have "R_A res + R_B res = P * (L - (p + a)) / L + P * (p + a) / L"
      using res(2,3) that by simp
    also have "\<dots> = P" using nz by (simp add: field_simps)
    finally show ?thesis .
  qed
  with res show ?thesis by blast
qed


text \<open>Claim C1, at a 12 m span with one 50 kN wheel at 0.266 m.\<close>

theorem analyze_single_position_reactions_witness:
  "(0::real) < 12 \<and>
   (\<exists>res. analyze_single_position 12 0.266 [0] [50] = Inr res
      \<and> R_A res = 50 * (12 - 0.266) / 12 \<and> R_B res = 50 * 0.266 / 12
      \<and> R_A res + R_B res = 50)"
  using analyze_single_position_reactions [of 12 "0.266" "[0]" "[50]"]
  by simp

lemma geometry_empty: "get_crane_group_geometry [] = Inr ([], [], 0)"
  by (simp add: get_crane_group_geometry_def)

lemma stepping_terminates:
  assumes "L \<noteq> 0" and "0 < step"
  shows "\<exists>rs. stepping L step e rels loads cur acc = Some (Inr (acc @ rs))
           \<and> (cur \<le> e + 0.001 \<longrightarrow> rs \<noteq> [] \<and> step_position (hd rs) = cur)"
proof (induction "nat (\<lfloor>(e + 0.001 - cur) / step\<rfloor> + 1)" arbitrary: cur acc rule: less_induct)
  case less
  show ?case
  proof (cases "cur \<le> e + 0.001")
    case False
    then show ?thesis by (subst stepping.simps) simp
  next
    case True
    obtain r where r: "analyze_single_position L cur rels loads = Inr r" "step_position r = cur"
      using analyze_single_position_returns [OF assms(1)] by blast
    have "0 \<le> (e + 0.001 - cur) / step" using True assms(2) by simp
    then have fl: "0 \<le> \<lfloor>(e + 0.001 - cur) / step\<rfloor>" by simp
    have "(e + 0.001 - (cur + step)) / step = (e + 0.001 - cur) / step - 1"
      using assms(2) by (simp add: field_simps)
    then have "\<lfloor>(e + 0.001 - (cur + step)) / step\<rfloor> + 1 = \<lfloor>(e + 0.001 - cur) / step\<rfloor>"
      by simp
    then have "nat (\<lfloor>(e + 0.001 - (cur + step)) / step\<rfloor> + 1)
                 < nat (\<lfloor>(e + 0.001 - cur) / step\<rfloor> + 1)"
      using fl by simp
    from less [OF this, of "acc @ [r]"]
    obtain rs where rs: "stepping L step e rels loads (cur + step) (acc @ [r])
                           = Some (Inr ((acc @ [r]) @ rs))"
      by blast
    have "stepping L step e rels loads cur acc = Some (Inr (acc @ (r # rs)))"
      using True r(1) rs by (subst stepping.simps) simp
    then show ?thesis using r(2) by auto
  qed
qed


lemma get_wheel_positions_relative_nonempty: "get_wheel_positions_relative c \<noteq> []"
  by (simp add: get_wheel_positions_relative_def Let_def)

lemma geometry_loop_step:
  assumes "get_wheel_load_with_impact c = Inr Pv"
  shows "geometry_loop (c # nxt # rest) cur rp wl =
           geometry_loop (nxt # rest)
             (cur + (get_total_wheel_base c + (buffer_right c + buffer_left nxt)))
             (rp @ map (\<lambda>w_pos. cur + w_pos) (get_wheel_positions_relative c))
             (wl @ map (\<lambda>w_pos. Pv) (get_wheel_positions_relative c))"
  by (subst geometry_loop.simps(2)) (simp add: Let_def assms del: geometry_loop.simps)

lemma geometry_loop_last:
  assumes "get_wheel_load_with_impact c = Inr Pv"
  shows "geometry_loop [c] cur rp wl =
           Inr (rp @ map (\<lambda>w_pos. cur + w_pos) (get_wheel_positions_relative c),
                wl @ map (\<lambda>w_pos. Pv) (get_wheel_positions_relative c))"
  using assms by (simp add: Let_def)

lemma geometry_loop_extends:
  assumes "geometry_loop cs cur rp wl = Inr (rp', wl')"
  shows "\<exists>xs. rp' = rp @ xs \<and> (cs \<noteq> [] \<longrightarrow> xs \<noteq> [])"
  using assms
proof (induction cs arbitrary: cur rp wl)
  case Nil
  then show ?case by simp
next
  case (Cons c cs)
  from Cons.prems obtain Pv where Pv: "get_wheel_load_with_impact c = Inr Pv"
    by (cases "get_wheel_load_with_impact c") simp_all
  let ?ps = "get_wheel_positions_relative c"
  show ?case
  proof (cases cs)
    case Nil
    with Cons.prems have "rp' = rp @ map (\<lambda>w_pos. cur + w_pos) ?ps"
      by (simp only: geometry_loop_last [OF Pv]) simp
    then show ?thesis using get_wheel_positions_relative_nonempty by simp
  next
    case (Cons nxt rest)
    with Cons.prems
    have "geometry_loop cs (cur + (get_total_wheel_base c + (buffer_right c + buffer_left nxt)))
            (rp @ map (\<lambda>w_pos. cur + w_pos) ?ps) (wl @ map (\<lambda>w_pos. Pv) ?ps) = Inr (rp', wl')"
      by (simp only: geometry_loop_step [OF Pv])
    from Cons.IH [OF this] obtain xs where "rp' = (rp @ map (\<lambda>w_pos. cur + w_pos) ?ps) @ xs"
      by blast
    then show ?thesis using get_wheel_positions_relative_nonempty by simp
  qed
qed

lemma geometry_nonempty:
  assumes "get_crane_group_geometry cs = Inr (rels, loads, glen)" and "cs \<noteq> []"
  shows "rels \<noteq> []"
proof -
  from assms(1) obtain wl where "geometry_loop cs 0 [] [] = Inr (rels, wl)"
    by (cases "geometry_loop cs 0 [] []") (auto simp add: get_crane_group_geometry_def)
  from geometry_loop_extends [OF this] assms(2) show ?thesis by auto
qed

text \<open>
  Claim C2, amended. When the list of active cranes is empty, \<^verbatim>\<open>run_moving_load_analysis\<close>
  returns the default \<^verbatim>\<open>CriticalResults\<close>: every number zero, every list empty, whatever
  the span and the step. When there are active cranes, their geometry is computed
  without error, the span is not zero, the step is positive and the travel range is
  infeasible, the sweep runs with the end position set to the start position, it ends,
  its first case is the one at the start position, and the envelope of its cases is
  returned.
\<close>

theorem run_moving_load_analysis_degenerate:
  assumes act: "active = py_slice_to (case num of None \<Rightarrow> int (length cranes) | Some k \<Rightarrow> k) cranes"
  shows "(active = [] \<longrightarrow>
            run_moving_load_analysis L cranes step num =
              Some (Inr \<lparr>M_max_crit = 0, M_max_position = 0, M_max_location_crit = 0,
                         M_max_R_A = 0, M_max_R_B = 0, M_max_wheel_positions = [],
                         R_A_max = 0, R_A_max_position = 0, R_A_max_wheel_positions = [],
                         R_A_max_moment = 0, R_A_max_R_B = 0,
                         R_B_max = 0, R_B_max_position = 0, R_B_max_wheel_positions = [],
                         R_B_max_moment = 0, R_B_max_R_A = 0,
                         R_A_min = 0, R_B_min = 0, V_max_crit = 0, all_results = []\<rparr>))
       \<and> (\<forall>rels loads glen.
            active \<noteq> [] \<and> get_crane_group_geometry active = Inr (rels, loads, glen)
            \<and> L \<noteq> 0 \<and> 0 < step
            \<and> L - buffer_right (last active) - glen < buffer_left (hd active) \<longrightarrow>
            (\<exists>rs. stepping L step (buffer_left (hd active)) rels loads (buffer_left (hd active)) []
                     = Some (Inr rs)
                 \<and> rs \<noteq> [] \<and> step_position (hd rs) = buffer_left (hd active)
                 \<and> run_moving_load_analysis L cranes step num = Some (Inr (extract_critical rs))))"
proof (intro conjI impI allI)
  assume "active = []"
  then show "run_moving_load_analysis L cranes step num =
              Some (Inr \<lparr>M_max_crit = 0, M_max_position = 0, M_max_location_crit = 0,
                         M_max_R_A = 0, M_max_R_B = 0, M_max_wheel_positions = [],
                         R_A_max = 0, R_A_max_position = 0, R_A_max_wheel_positions = [],
                         R_A_max_moment = 0, R_A_max_R_B = 0,
                         R_B_max = 0, R_B_max_position = 0, R_B_max_wheel_positions = [],
                         R_B_max_moment = 0, R_B_max_R_A = 0,
                         R_A_min = 0, R_B_min = 0, V_max_crit = 0, all_results = []\<rparr>)"
    using act
    by (simp add: run_moving_load_analysis_def Let_def geometry_empty CriticalResults_default_def)
next
  fix rels loads glen
  assume h: "active \<noteq> [] \<and> get_crane_group_geometry active = Inr (rels, loads, glen)
            \<and> L \<noteq> 0 \<and> 0 < step
            \<and> L - buffer_right (last active) - glen < buffer_left (hd active)"
  then have ne: "rels \<noteq> []" using geometry_nonempty by blast
  let ?s = "buffer_left (hd active)"
  from h have "L \<noteq> 0" "0 < step" by simp_all
  from stepping_terminates [OF this, of ?s rels loads ?s "[]"]
  obtain rs where rs: "stepping L step ?s rels loads ?s [] = Some (Inr rs)"
      "rs \<noteq> []" "step_position (hd rs) = ?s"
    by auto
  have "run_moving_load_analysis L cranes step num = Some (Inr (extract_critical rs))"
    using h ne rs(1) act [symmetric] by (simp add: run_moving_load_analysis_def Let_def)
  with rs show "\<exists>rs. stepping L step ?s rels loads ?s [] = Some (Inr rs)
                 \<and> rs \<noteq> [] \<and> step_position (hd rs) = ?s
                 \<and> run_moving_load_analysis L cranes step num = Some (Inr (extract_critical rs))"
    by blast
qed

lemma geometry_default:
  "get_crane_group_geometry [CraneData_default]
     = Inr ([0, 11 / 5], [3066933 / 40000, 3066933 / 40000], 11 / 5)"
  by (simp add: get_crane_group_geometry_def get_wheel_load_with_impact_def calc_wheel_loads_def
      get_wheel_positions_relative_def py_div_def Let_def CraneData_default_def GRAVITY_def)

lemma buffers_default:
  "buffer_left CraneData_default = 29 / 100" "buffer_right CraneData_default = 29 / 100"
  by (simp_all add: CraneData_default_def)

text \<open>
  Claim C2 as stated fails for a span of zero: with the default crane the travel range
  is infeasible (the end position is below the start position), it is clamped, and the
  analysis of the one position divides by the span.
\<close>

theorem run_moving_load_analysis_counterexample:
  "get_crane_group_geometry [CraneData_default]
     = Inr ([0, 11 / 5], [3066933 / 40000, 3066933 / 40000], 11 / 5)
   \<and> 0 - buffer_right CraneData_default - 11 / 5 < buffer_left CraneData_default
   \<and> run_moving_load_analysis 0 [CraneData_default] (1 / 2) None = Some (Inl ZeroDivisionError)"
proof -
  have "stepping 0 (1 / 2) (29 / 100) [0, 11 / 5] [3066933 / 40000, 3066933 / 40000] (29 / 100) []
          = Some (Inl ZeroDivisionError)"
    by (subst stepping.simps) (simp add: analyze_single_position_def py_div_def)
  then show ?thesis
    by (simp add: run_moving_load_analysis_def Let_def geometry_default py_slice_to_def
        buffers_default)
qed

text \<open>Claim C2 amended: no cranes on a 12 m span, and the default crane on a 1 m span
  (shorter than the crane).\<close>

theorem run_moving_load_analysis_degenerate_witness:
  "run_moving_load_analysis 12 [] (1 / 2) None = Some (Inr CriticalResults_default)
   \<and> (\<exists>rs. rs \<noteq> [] \<and> step_position (hd rs) = 29 / 100
          \<and> run_moving_load_analysis 1 [CraneData_default] (1 / 2) None
               = Some (Inr (extract_critical rs)))"
proof -
  have a: "[] = py_slice_to (case None of None \<Rightarrow> int (length ([]::CraneData list)) | Some k \<Rightarrow> k) []"
    by (simp add: py_slice_to_def)
  have b: "[CraneData_default]
             = py_slice_to (case None of None \<Rightarrow> int (length [CraneData_default]) | Some k \<Rightarrow> k)
                 [CraneData_default]"
    by (simp add: py_slice_to_def)
  have c: "[CraneData_default] \<noteq> []
           \<and> get_crane_group_geometry [CraneData_default]
               = Inr ([0, 11 / 5], [3066933 / 40000, 3066933 / 40000], 11 / 5)
           \<and> (1::real) \<noteq> 0 \<and> (0::real) < 1 / 2
           \<and> 1 - buffer_right (last [CraneData_default]) - 11 / 5
               < buffer_left (hd [CraneData_default])"
    by (simp add: geometry_default buffers_default)
  have p1: "run_moving_load_analysis 12 [] (1 / 2) None = Some (Inr CriticalResults_default)"
    using conjunct1 [OF run_moving_load_analysis_degenerate [OF a, of 12 "1 / 2"]]
    by (simp add: CriticalResults_default_def)
  from conjunct2 [OF run_moving_load_analysis_degenerate [OF b, of 1 "1 / 2"], rule_format, OF c]
  obtain rs where "rs \<noteq> []" "step_position (hd rs) = buffer_left (hd [CraneData_default])"
    "run_moving_load_analysis 1 [CraneData_default] (1 / 2) None = Some (Inr (extract_critical rs))"
    by blast
  then have "\<exists>rs. rs \<noteq> [] \<and> step_position (hd rs) = 29 / 100
          \<and> run_moving_load_analysis 1 [CraneData_default] (1 / 2) None
               = Some (Inr (extract_critical rs))"
    by (auto simp add: buffers_default)
  with p1 show ?thesis by simp
qed


subsection \<open>Section properties\<close>

lemma common_frame [simp]:
  "name (calc_common_props s) = name s" "sec_type (calc_common_props s) = sec_type s"
  "d (calc_common_props s) = d s" "bf (calc_common_props s) = bf s"
  "tf (calc_common_props s) = tf s" "tw (calc_common_props s) = tw s"
  "r (calc_common_props s) = r s"
  "bf_top (calc_common_props s) = bf_top s" "tf_top (calc_common_props s) = tf_top s"
  "bf_bot (calc_common_props s) = bf_bot s" "tf_bot (calc_common_props s) = tf_bot s"
  "hw (calc_common_props s) = hw s" "has_cap (calc_common_props s) = has_cap s"
  "cap_name (calc_common_props s) = cap_name s"
  "cap_A (calc_common_props s) = cap_A s" "cap_Ix (calc_common_props s) = cap_Ix s"
  "cap_Iy (calc_common_props s) = cap_Iy s" "cap_d (calc_common_props s) = cap_d s"
  "cap_cy (calc_common_props s) = cap_cy s"
  "A (calc_common_props s) = A s" "Ix (calc_common_props s) = Ix s"
  "Iy (calc_common_props s) = Iy s" "Sx (calc_common_props s) = Sx s"
  "Sy (calc_common_props s) = Sy s" "ho (calc_common_props s) = ho s"
  "y_bar (calc_common_props s) = y_bar s"
  by (simp_all add: calc_common_props_def)

lemma common_sel [simp]:
  "rx (calc_common_props s) = common_rx s" "ry (calc_common_props s) = common_ry s"
  "Zx (calc_common_props s) = common_Zx s" "J (calc_common_props s) = common_J s"
  "Cw (calc_common_props s) = common_Cw s" "rts (calc_common_props s) = common_rts s"
  "mass (calc_common_props s) = common_mass s"
  by (simp_all add: calc_common_props_def)

lemma common_rx_fix: "common_rx (calc_common_props s) = common_rx s"
  by (simp add: common_rx_def)

lemma common_ry_fix: "common_ry (calc_common_props s) = common_ry s"
  by (simp add: common_ry_def)

lemma common_Zx_fix: "common_Zx (calc_common_props s) = common_Zx s"
  by (simp add: common_Zx_def)

lemma common_J_fix: "common_J (calc_common_props s) = common_J s"
  by (simp add: common_J_def)

lemma common_Cw_pos: "Cw s = 0 \<Longrightarrow> ho s > 0 \<Longrightarrow> Iy s > 0 \<Longrightarrow> common_Cw s > 0"
  by (simp add: common_Cw_def)

lemma common_Cw_fix: "common_Cw (calc_common_props s) = common_Cw s"
  by (auto simp add: common_Cw_def)

lemma common_Cw_Cw_fix:
  "(if common_Cw s = 0 \<and> ho s > 0 \<and> Iy s > 0 then Iy s * ho s ^ 2 / 4 else common_Cw s)
     = common_Cw s"
  by (auto simp add: common_Cw_def)

lemma sqrt_sqrt_pos: "0 < a \<Longrightarrow> 0 < b \<Longrightarrow> 0 < c \<Longrightarrow> 0 < sqrt (sqrt (a * b) / c)"
  by simp

lemma common_rts_fix: "common_rts (calc_common_props s) = common_rts s"
proof -
  have "common_Cw (calc_common_props s) = common_Cw s" by (rule common_Cw_fix)
  moreover have "rts s = 0 \<Longrightarrow> Sx s > 0 \<Longrightarrow> Iy s > 0 \<Longrightarrow> common_Cw s > 0 \<Longrightarrow> common_rts s \<noteq> 0"
    using sqrt_sqrt_pos [of "Iy s" "common_Cw s" "Sx s"] by (simp add: common_rts_def)
  ultimately show ?thesis
    by (subst common_rts_def) (auto simp add: common_rts_def)
qed

lemma common_mass_fix: "common_mass (calc_common_props s) = common_mass s"
proof -
  have "mass s = 0 \<Longrightarrow> A s > 0 \<Longrightarrow> common_mass s \<noteq> 0"
    by (auto simp add: common_mass_def Let_def RHO_STEEL_def add_pos_pos)
  then show ?thesis
    by (subst common_mass_def) (auto simp add: common_mass_def Let_def)
qed

lemma upd7_id:
  "rx t = a \<Longrightarrow> ry t = b \<Longrightarrow> Zx t = c \<Longrightarrow> J t = e \<Longrightarrow> Cw t = f \<Longrightarrow> rts t = g \<Longrightarrow> mass t = h
   \<Longrightarrow> t\<lparr>rx := a, ry := b, Zx := c, J := e, Cw := f, rts := g, mass := h\<rparr> = t"
  by simp

lemma calc_common_props_idem: "calc_common_props (calc_common_props s) = calc_common_props s"
  by (subst calc_common_props_def)
     (rule upd7_id; simp add: common_rx_fix common_ry_fix common_Zx_fix common_J_fix
        common_Cw_fix common_rts_fix common_mass_fix)


lemma hot_rolled_defaults_frame [simp]:
  "name (hot_rolled_defaults s) = name s" "sec_type (hot_rolled_defaults s) = sec_type s"
  "d (hot_rolled_defaults s) = d s" "bf (hot_rolled_defaults s) = bf s"
  "tf (hot_rolled_defaults s) = tf s" "tw (hot_rolled_defaults s) = tw s"
  "r (hot_rolled_defaults s) = r s" "has_cap (hot_rolled_defaults s) = has_cap s"
  "cap_A (hot_rolled_defaults s) = cap_A s" "cap_Ix (hot_rolled_defaults s) = cap_Ix s"
  "cap_Iy (hot_rolled_defaults s) = cap_Iy s" "cap_d (hot_rolled_defaults s) = cap_d s"
  "cap_cy (hot_rolled_defaults s) = cap_cy s"
  "A (hot_rolled_defaults s) = A s" "Ix (hot_rolled_defaults s) = Ix s"
  "Iy (hot_rolled_defaults s) = Iy s" "Sx (hot_rolled_defaults s) = Sx s"
  "Zx (hot_rolled_defaults s) = Zx s" "J (hot_rolled_defaults s) = J s"
  "Cw (hot_rolled_defaults s) = Cw s" "rts (hot_rolled_defaults s) = rts s"
  "mass (hot_rolled_defaults s) = mass s" "rx (hot_rolled_defaults s) = rx s"
  "ry (hot_rolled_defaults s) = ry s"
  by (simp_all add: hot_rolled_defaults_def)

lemma upd_hot_rolled_id:
  "hw t = a \<Longrightarrow> ho t = b \<Longrightarrow> bf_top t = c \<Longrightarrow> tf_top t = e \<Longrightarrow> bf_bot t = f \<Longrightarrow> tf_bot t = g
   \<Longrightarrow> t\<lparr>hw := a, ho := b, bf_top := c, tf_top := e, bf_bot := f, tf_bot := g\<rparr> = t"
  by simp

lemma hot_rolled_defaults_fix:
  assumes "hw t = hw (hot_rolled_defaults s)" "ho t = ho (hot_rolled_defaults s)"
    "bf_top t = bf_top (hot_rolled_defaults s)" "tf_top t = tf_top (hot_rolled_defaults s)"
    "bf_bot t = bf_bot (hot_rolled_defaults s)" "tf_bot t = tf_bot (hot_rolled_defaults s)"
    "d t = d s" "tf t = tf s" "bf t = bf s"
  shows "hot_rolled_defaults t = t"
  using assms
  by (subst hot_rolled_defaults_def, intro upd_hot_rolled_id)
     (auto simp add: hot_rolled_defaults_def)

lemma hot_rolled_uncapped:
  assumes "\<not> (has_cap s \<and> cap_A s > 0)"
  shows "calc_hot_rolled_props s = Inr (calc_common_props (hot_rolled_defaults s))"
  using assms by (auto simp add: calc_hot_rolled_props_def Let_def)

lemma hot_rolled_idem:
  assumes "\<not> (has_cap s \<and> cap_A s > 0)"
  shows "calc_hot_rolled_props (calc_common_props (hot_rolled_defaults s))
           = Inr (calc_common_props (hot_rolled_defaults s))"
proof -
  let ?t = "calc_common_props (hot_rolled_defaults s)"
  have fp: "hot_rolled_defaults ?t = ?t"
    by (rule hot_rolled_defaults_fix [of _ s]) simp_all
  have "\<not> (has_cap ?t \<and> cap_A ?t > 0)" using assms by simp
  from hot_rolled_uncapped [OF this] show ?thesis
    by (simp add: fp calc_common_props_idem)
qed


lemma built_up_defaults_frame [simp]:
  "sec_type (built_up_defaults s) = sec_type s"
  "d (built_up_defaults s) = d s" "bf (built_up_defaults s) = bf s"
  "tf (built_up_defaults s) = tf s" "tw (built_up_defaults s) = tw s"
  "has_cap (built_up_defaults s) = has_cap s"
  "cap_A (built_up_defaults s) = cap_A s" "cap_Ix (built_up_defaults s) = cap_Ix s"
  "cap_Iy (built_up_defaults s) = cap_Iy s" "cap_d (built_up_defaults s) = cap_d s"
  "cap_cy (built_up_defaults s) = cap_cy s"
  by (simp_all add: built_up_defaults_def Let_def)

lemma upd_built_up_id:
  "bf_top t = a \<Longrightarrow> tf_top t = b \<Longrightarrow> bf_bot t = c \<Longrightarrow> tf_bot t = e \<Longrightarrow> hw t = f
   \<Longrightarrow> t\<lparr>bf_top := a, tf_top := b, bf_bot := c, tf_bot := e, hw := f\<rparr> = t"
  by simp

lemma built_up_defaults_fix:
  assumes "bf_top t = bf_top (built_up_defaults s)" "tf_top t = tf_top (built_up_defaults s)"
    "bf_bot t = bf_bot (built_up_defaults s)" "tf_bot t = tf_bot (built_up_defaults s)"
    "hw t = hw (built_up_defaults s)" "d t = d s" "tf t = tf s" "bf t = bf s"
  shows "built_up_defaults t = t"
  using assms
  by (subst built_up_defaults_def, unfold Let_def, intro upd_built_up_id)
     (auto simp add: built_up_defaults_def Let_def)

lemma map_sum_bnd: "map_sum id h (bnd m f) = bnd m (\<lambda>v. map_sum id h (f v))"
  by (cases m) simp_all

lemma map_sum_if: "map_sum id h (if c then x else y) = (if c then map_sum id h x else map_sum id h y)"
  by simp

lemma built_up_derive_cong:
  assumes "d u = d s" "bf_top u = bf_top s" "tf_top u = tf_top s" "bf_bot u = bf_bot s"
    "tf_bot u = tf_bot s" "hw u = hw s" "tw u = tw s" "has_cap u = has_cap s"
    "cap_A u = cap_A s" "cap_Ix u = cap_Ix s" "cap_Iy u = cap_Iy s" "cap_d u = cap_d s"
    "cap_cy u = cap_cy s"
  shows "built_up_derive u =
           map_sum id (\<lambda>t. u\<lparr>A := A t, y_bar := y_bar t, ho := ho t, Ix := Ix t, Iy := Iy t,
                              Sx := Sx t, Sy := Sy t, J := J t, Cw := Cw t\<rparr>)
             (built_up_derive s)"
  unfolding built_up_derive_def Let_def map_sum_bnd
  by (simp add: assms split del: if_split cong: if_cong)


lemma built_up_derive_shape:
  assumes "built_up_derive s = Inr t"
  shows "t = s\<lparr>A := A t, y_bar := y_bar t, ho := ho t, Ix := Ix t, Iy := Iy t,
               Sx := Sx t, Sy := Sy t, J := J t, Cw := Cw t\<rparr>"
  using built_up_derive_cong [of s s] assms by simp

lemma built_up_derive_frame:
  assumes "built_up_derive s = Inr t"
  shows "sec_type t = sec_type s" "d t = d s" "bf t = bf s" "tf t = tf s" "tw t = tw s"
    "bf_top t = bf_top s" "tf_top t = tf_top s" "bf_bot t = bf_bot s" "tf_bot t = tf_bot s"
    "hw t = hw s" "has_cap t = has_cap s" "cap_A t = cap_A s" "cap_Ix t = cap_Ix s"
    "cap_Iy t = cap_Iy s" "cap_d t = cap_d s" "cap_cy t = cap_cy s"
  by (subst built_up_derive_shape [OF assms], simp)+

lemma upd_derived_trivial:
  "A u = a \<Longrightarrow> y_bar u = b \<Longrightarrow> ho u = c \<Longrightarrow> Ix u = e \<Longrightarrow> Iy u = f \<Longrightarrow> Sx u = g \<Longrightarrow> Sy u = h
   \<Longrightarrow> u\<lparr>A := a, y_bar := b, ho := c, Ix := e, Iy := f, Sx := g, Sy := h, J := j, Cw := k\<rparr>
       = u\<lparr>J := j, Cw := k\<rparr>"
  by simp

lemma common_rx_absorb:
  "common_rx ((calc_common_props t)\<lparr>J := J t, Cw := Cw t\<rparr>) = common_rx t"
  by (simp add: common_rx_def)

lemma common_ry_absorb:
  "common_ry ((calc_common_props t)\<lparr>J := J t, Cw := Cw t\<rparr>) = common_ry t"
  by (simp add: common_ry_def)

lemma common_Zx_absorb:
  "common_Zx ((calc_common_props t)\<lparr>J := J t, Cw := Cw t\<rparr>) = common_Zx t"
  by (simp add: common_Zx_def)

lemma common_J_absorb:
  "common_J ((calc_common_props t)\<lparr>J := J t, Cw := Cw t\<rparr>) = common_J t"
  by (simp add: common_J_def)

lemma common_Cw_absorb:
  "common_Cw ((calc_common_props t)\<lparr>J := J t, Cw := Cw t\<rparr>) = common_Cw t"
  by (simp add: common_Cw_def)

lemma common_rts_absorb:
  "common_rts ((calc_common_props t)\<lparr>J := J t, Cw := Cw t\<rparr>) = common_rts t"
proof -
  have "rts t = 0 \<Longrightarrow> Sx t > 0 \<Longrightarrow> Iy t > 0 \<Longrightarrow> common_Cw t > 0 \<Longrightarrow> common_rts t \<noteq> 0"
    using sqrt_sqrt_pos [of "Iy t" "common_Cw t" "Sx t"] by (simp add: common_rts_def)
  then show ?thesis
    by (subst common_rts_def) (auto simp add: common_Cw_absorb common_rts_def)
qed

lemma common_mass_absorb:
  "common_mass ((calc_common_props t)\<lparr>J := J t, Cw := Cw t\<rparr>) = common_mass t"
proof -
  have "mass t = 0 \<Longrightarrow> A t > 0 \<Longrightarrow> common_mass t \<noteq> 0"
    by (auto simp add: common_mass_def Let_def RHO_STEEL_def add_pos_pos)
  then show ?thesis
    by (subst common_mass_def) (auto simp add: common_mass_def Let_def)
qed

lemma calc_common_props_absorb:
  "calc_common_props ((calc_common_props t)\<lparr>J := J t, Cw := Cw t\<rparr>) = calc_common_props t"
proof -
  let ?u = "(calc_common_props t)\<lparr>J := J t, Cw := Cw t\<rparr>"
  have "calc_common_props ?u =
          ?u\<lparr>rx := common_rx ?u, ry := common_ry ?u, Zx := common_Zx ?u, J := common_J ?u,
             Cw := common_Cw ?u, rts := common_rts ?u, mass := common_mass ?u\<rparr>"
    by (rule calc_common_props_def)
  also have "\<dots> = ?u\<lparr>rx := common_rx t, ry := common_ry t, Zx := common_Zx t, J := common_J t,
                      Cw := common_Cw t, rts := common_rts t, mass := common_mass t\<rparr>"
    by (simp only: common_rx_absorb common_ry_absorb common_Zx_absorb common_J_absorb
        common_Cw_absorb common_rts_absorb common_mass_absorb)
  also have "\<dots> = calc_common_props t"
    by (simp add: calc_common_props_def)
  finally show ?thesis .
qed

lemma built_up_idem:
  assumes "calc_built_up_props s = Inr s1"
  shows "calc_built_up_props s1 = Inr s1"
proof -
  let ?s2 = "built_up_defaults s"
  from assms obtain t where t: "built_up_derive ?s2 = Inr t" and s1: "s1 = calc_common_props t"
    by (cases "built_up_derive ?s2") (auto simp add: calc_built_up_props_def)
  note fr = built_up_derive_frame [OF t]
  have fp: "built_up_defaults s1 = s1"
    by (rule built_up_defaults_fix [of _ s]) (simp_all add: s1 fr)
  have "built_up_derive s1 =
          map_sum id (\<lambda>t. s1\<lparr>A := A t, y_bar := y_bar t, ho := ho t, Ix := Ix t, Iy := Iy t,
                              Sx := Sx t, Sy := Sy t, J := J t, Cw := Cw t\<rparr>)
            (built_up_derive ?s2)"
    by (rule built_up_derive_cong) (simp_all add: s1 fr)
  then have "built_up_derive s1 =
          Inr (s1\<lparr>A := A t, y_bar := y_bar t, ho := ho t, Ix := Ix t, Iy := Iy t,
                  Sx := Sx t, Sy := Sy t, J := J t, Cw := Cw t\<rparr>)"
    by (simp add: t)
  also have "s1\<lparr>A := A t, y_bar := y_bar t, ho := ho t, Ix := Ix t, Iy := Iy t,
                  Sx := Sx t, Sy := Sy t, J := J t, Cw := Cw t\<rparr> = s1\<lparr>J := J t, Cw := Cw t\<rparr>"
    by (rule upd_derived_trivial) (simp_all add: s1)
  finally have "built_up_derive s1 = Inr ((calc_common_props t)\<lparr>J := J t, Cw := Cw t\<rparr>)"
    by (simp only: s1)
  then have "calc_built_up_props s1
               = Inr (calc_common_props ((calc_common_props t)\<lparr>J := J t, Cw := Cw t\<rparr>))"
    by (simp add: calc_built_up_props_def fp)
  then show ?thesis
    by (simp only: calc_common_props_absorb s1)
qed


lemma hot_rolled_defaults_sel [simp]:
  "hw (hot_rolled_defaults s) = (if hw s = 0 then d s - 2 * tf s else hw s)"
  "ho (hot_rolled_defaults s) = (if ho s = 0 then d s - tf s else ho s)"
  "bf_top (hot_rolled_defaults s) = (if bf_top s = 0 then bf s else bf_top s)"
  "tf_top (hot_rolled_defaults s) = (if bf_top s = 0 then tf s else tf_top s)"
  "bf_bot (hot_rolled_defaults s) = (if bf_top s = 0 then bf s else bf_bot s)"
  "tf_bot (hot_rolled_defaults s) = (if bf_top s = 0 then tf s else tf_bot s)"
  by (simp_all add: hot_rolled_defaults_def)

lemma built_up_sec_type:
  assumes "calc_built_up_props s = Inr s1"
  shows "sec_type s1 = sec_type s"
proof -
  from assms obtain t where t: "built_up_derive (built_up_defaults s) = Inr t"
    and s1: "s1 = calc_common_props t"
    by (cases "built_up_derive (built_up_defaults s)") (auto simp add: calc_built_up_props_def)
  show ?thesis by (simp add: s1 built_up_derive_frame(1) [OF t])
qed

text \<open>
  Claim C3, amended. For a hot-rolled section without an effective cap channel
  (\<^verbatim>\<open>has_cap and cap_A > 0\<close> false) \<^verbatim>\<open>calc_props\<close> returns, and a second call on
  the result returns the same section; for a built-up section, whenever the first call
  returns, the second call on its result returns the same section. The common step
  keeps a nonzero \<open>Zx\<close>, \<open>J\<close>, \<open>Cw\<close>, \<open>rts\<close> and \<open>mass\<close>; it recomputes \<open>rx\<close> and \<open>ry\<close>
  whenever the area is positive.
\<close>

theorem calc_props_idempotent:
  "(sec_type s \<noteq> ''built_up'' \<and> \<not> (has_cap s \<and> cap_A s > 0) \<longrightarrow>
      (\<exists>s1. calc_props s = Inr s1 \<and> calc_props s1 = Inr s1))
   \<and> (sec_type s = ''built_up'' \<longrightarrow>
      (\<forall>s1. calc_props s = Inr s1 \<longrightarrow> calc_props s1 = Inr s1))
   \<and> (Zx s \<noteq> 0 \<longrightarrow> Zx (calc_common_props s) = Zx s)
   \<and> (J s \<noteq> 0 \<longrightarrow> J (calc_common_props s) = J s)
   \<and> (Cw s \<noteq> 0 \<longrightarrow> Cw (calc_common_props s) = Cw s)
   \<and> (rts s \<noteq> 0 \<longrightarrow> rts (calc_common_props s) = rts s)
   \<and> (mass s \<noteq> 0 \<longrightarrow> mass (calc_common_props s) = mass s)
   \<and> rx (calc_common_props s)
       = (if A s > 0 then (if Ix s > 0 then sqrt (Ix s / A s) else 0) else rx s)
   \<and> ry (calc_common_props s)
       = (if A s > 0 then (if Iy s > 0 then sqrt (Iy s / A s) else 0) else ry s)"
proof (intro conjI impI allI)
  assume h: "sec_type s \<noteq> ''built_up'' \<and> \<not> (has_cap s \<and> cap_A s > 0)"
  let ?s1 = "calc_common_props (hot_rolled_defaults s)"
  have "calc_props s = Inr ?s1"
    using h hot_rolled_uncapped [of s] by (simp add: calc_props_def)
  moreover have "calc_props ?s1 = Inr ?s1"
    using h hot_rolled_idem [of s] by (simp add: calc_props_def)
  ultimately show "\<exists>s1. calc_props s = Inr s1 \<and> calc_props s1 = Inr s1" by blast
next
  fix s1
  assume b: "sec_type s = ''built_up''" and c: "calc_props s = Inr s1"
  from b c have c': "calc_built_up_props s = Inr s1" by (simp add: calc_props_def)
  from built_up_sec_type [OF c'] b have "sec_type s1 = ''built_up''" by simp
  with built_up_idem [OF c'] show "calc_props s1 = Inr s1" by (simp add: calc_props_def)
qed (simp_all add: common_Zx_def common_J_def common_Cw_def common_rts_def common_mass_def
      common_rx_def common_ry_def)

text \<open>
  Claim C3 as stated fails twice. A hot-rolled section with a cap channel: the first
  \<^verbatim>\<open>calc_props\<close> gives area 2000, the second, on its result, 3000. A section with a
  radius of gyration \<open>rx = 5\<close> already set: the common step overwrites it with 2.
\<close>

theorem calc_props_counterexample:
  "sec_type example_capped_hot_rolled = ''hot_rolled''
   \<and> map_sum id A (calc_props example_capped_hot_rolled) = Inr 2000
   \<and> map_sum id A (bnd (calc_props example_capped_hot_rolled) calc_props) = Inr 3000
   \<and> map_sum id rx (calc_props (Section_default\<lparr>A := 100, Ix := 400, rx := 5\<rparr>)) = Inr 2"
proof -
  let ?e = "hot_rolled_defaults example_capped_hot_rolled"
  have ty: "sec_type example_capped_hot_rolled = ''hot_rolled''"
    by (simp add: example_capped_hot_rolled_def Section_default_def)
  have 1: "calc_props example_capped_hot_rolled
             = Inr (calc_common_props
                      (?e\<lparr>y_bar := 80, Ix := 2800000, A := 2000, Iy := 0, Sx := 35000\<rparr>))"
    by (simp add: calc_props_def calc_hot_rolled_props_def Let_def py_div_def
        example_capped_hot_rolled_def Section_default_def)
  let ?s1 = "calc_common_props (?e\<lparr>y_bar := 80, Ix := 2800000, A := 2000, Iy := 0, Sx := 35000\<rparr>)"
  have 2: "map_sum id A (calc_props ?s1) = Inr 3000"
    by (simp add: calc_props_def calc_hot_rolled_props_def Let_def py_div_def
        example_capped_hot_rolled_def Section_default_def)
  have 3: "map_sum id rx (calc_props (Section_default\<lparr>A := 100, Ix := 400, rx := 5\<rparr>)) = Inr 2"
    by (simp add: calc_props_def calc_hot_rolled_props_def Let_def common_rx_def
        Section_default_def)
  from ty 1 2 3 show ?thesis by simp
qed

lemma example_plate_girder_returns: "\<exists>s1. calc_props example_plate_girder = Inr s1"
  by (simp add: calc_props_def calc_built_up_props_def built_up_derive_def Let_def py_div_def
      built_up_defaults_def example_plate_girder_def Section_default_def)

text \<open>Claim C3 amended: a hot-rolled shape without cap, the example plate girder, and
  a section with \<open>Zx\<close> already set.\<close>

theorem calc_props_idempotent_witness:
  "(\<exists>s1. calc_props (Section_default\<lparr>d := 200, bf := 100, tf := 10, tw := 5, A := 2848\<rparr>) = Inr s1
         \<and> calc_props s1 = Inr s1)
   \<and> (\<exists>s1. calc_props example_plate_girder = Inr s1 \<and> calc_props s1 = Inr s1)
   \<and> Zx (calc_common_props (Section_default\<lparr>Zx := 7, Sx := 5\<rparr>)) = 7"
proof -
  have a: "sec_type (Section_default\<lparr>d := 200, bf := 100, tf := 10, tw := 5, A := 2848\<rparr>) \<noteq> ''built_up''
           \<and> \<not> (has_cap (Section_default\<lparr>d := 200, bf := 100, tf := 10, tw := 5, A := 2848\<rparr>)
                \<and> cap_A (Section_default\<lparr>d := 200, bf := 100, tf := 10, tw := 5, A := 2848\<rparr>) > 0)"
    by (simp add: Section_default_def)
  have b: "sec_type example_plate_girder = ''built_up''"
    by (simp add: example_plate_girder_def Section_default_def)
  obtain s1 where s1: "calc_props example_plate_girder = Inr s1"
    using example_plate_girder_returns by blast
  have c: "Zx (Section_default\<lparr>Zx := 7, Sx := 5\<rparr>) \<noteq> 0" by simp
  note t1 = calc_props_idempotent [of "Section_default\<lparr>d := 200, bf := 100, tf := 10, tw := 5, A := 2848\<rparr>"]
  note t2 = calc_props_idempotent [of example_plate_girder]
  note t3 = calc_props_idempotent [of "Section_default\<lparr>Zx := 7, Sx := 5\<rparr>"]
  from t1 a have p1: "\<exists>s1. calc_props (Section_default\<lparr>d := 200, bf := 100, tf := 10, tw := 5, A := 2848\<rparr>) = Inr s1
         \<and> calc_props s1 = Inr s1" by blast
  from t2 b s1 have "calc_props s1 = Inr s1" by blast
  with s1 have p2: "\<exists>s1. calc_props example_plate_girder = Inr s1 \<and> calc_props s1 = Inr s1"
    by blast
  from t3 c have p3: "Zx (calc_common_props (Section_default\<lparr>Zx := 7, Sx := 5\<rparr>)) = 7"
    by simp
  from p1 p2 p3 show ?thesis by blast
qed


subsection \<open>Strength checks\<close>

lemma E_category: "FATIGUE_CATEGORIES ''E''
   = Some \<lparr>Cf = 1100000000, FTH = 31, desc = ''Welded attachments >100mm, cover plate ends''\<rparr>"
  by (simp add: FATIGUE_CATEGORIES_def)

text \<open>
  Claim C10. For a category that is not a key of the table (and a positive number of
  cycles), \<^verbatim>\<open>check_fatigue\<close> returns: the allowable range is computed from the
  constants of category E (\<open>Cf = 11e8\<close>, \<open>FTH = 31\<close>), and the field \<^verbatim>\<open>category\<close> is the
  string the caller passed.
\<close>

theorem check_fatigue_unknown_category:
  assumes "FATIGUE_CATEGORIES category = None" and "0 < N_cycles"
  shows "check_fatigue sec M_range N_cycles category =
           Inr \<lparr>fat_f_sr = (if Sx sec > 0 then M_range * 1000000 / Sx sec else 0),
                fat_F_sr = max ((1100000000 / of_int N_cycles) powr (1 / 3)) 31,
                fat_FTH = 31, fat_Cf = 1100000000, fat_N_cycles = N_cycles,
                fat_category = category,
                fat_ratio = (if Sx sec > 0 then M_range * 1000000 / Sx sec else 0)
                              / max ((1100000000 / of_int N_cycles) powr (1 / 3)) 31,
                fat_status = status_of
                  ((if Sx sec > 0 then M_range * 1000000 / Sx sec else 0)
                     / max ((1100000000 / of_int N_cycles) powr (1 / 3)) 31)\<rparr>"
proof -
  have pos: "(0::real) < max ((1100000000 / of_int N_cycles) powr (1 / 3)) 31" by simp
  have nneg: "\<not> (1100000000 / real_of_int N_cycles < 0)" using assms(2) by simp
  show ?thesis
    using assms pos nneg
    by (simp add: check_fatigue_def E_category py_div_def Let_def)
qed

text \<open>Claim C10, at the category \<^verbatim>\<open>'Z'\<close> with two million cycles.\<close>

theorem check_fatigue_unknown_category_witness:
  "FATIGUE_CATEGORIES ''Z'' = None \<and> (0::int) < 2000000
   \<and> map_sum id fat_Cf (check_fatigue Section_default 100 2000000 ''Z'') = Inr 1100000000
   \<and> map_sum id fat_FTH (check_fatigue Section_default 100 2000000 ''Z'') = Inr 31
   \<and> map_sum id fat_category (check_fatigue Section_default 100 2000000 ''Z'') = Inr ''Z''"
proof -
  have a: "FATIGUE_CATEGORIES ''Z'' = None" by (simp add: FATIGUE_CATEGORIES_def)
  have b: "(0::int) < 2000000" by simp
  show ?thesis
    using check_fatigue_unknown_category [OF a b, of Section_default 100] a by simp
qed









lemma sqrt_E_Fy_returns: "0 < Fy \<Longrightarrow> sqrt_E_Fy Fy = Inr (sqrt (E_STEEL / Fy))"
  by (simp add: sqrt_E_Fy_def py_div_def py_sqrt_def E_STEEL_def not_less)

lemma sum_sqrt_nonneg:
  fixes t k :: real
  assumes "0 \<le> k"
  shows "0 \<le> t + sqrt (t ^ 2 + k)"
proof -
  have "sqrt (t ^ 2) \<le> sqrt (t ^ 2 + k)"
    using assms by (intro real_sqrt_le_mono) simp
  moreover have "sqrt (t ^ 2) = \<bar>t\<bar>" by (rule real_sqrt_abs)
  ultimately show ?thesis by linarith
qed

lemma calc_Lp_Lr_returns:
  assumes "0 < Fy" and "0 < ry sec"
  shows "\<exists>Lr. calc_Lp_Lr sec Fy = Inr (1.76 * ry sec * sqrt (E_STEEL / Fy), Lr)"
proof -
  let ?ho = "if ho sec > 0 then ho sec else d sec - tf sec"
  let ?t = "J sec * 1 / (Sx sec * ?ho)"
  let ?k = "6.76 * (0.7 * Fy / E_STEEL) ^ 2"
  have k: "0 \<le> ?k" by simp
  have 1: "py_sqrt (?t ^ 2 + ?k) = Inr (sqrt (?t ^ 2 + ?k))"
    using k by (simp add: py_sqrt_def not_less)
  have 2: "py_div E_STEEL (0.7 * Fy) = Inr (E_STEEL / (0.7 * Fy))"
    using assms(1) by (simp add: py_div_def)
  have 3: "py_sqrt (?t + sqrt (?t ^ 2 + ?k)) = Inr (sqrt (?t + sqrt (?t ^ 2 + ?k)))"
    using sum_sqrt_nonneg [OF k, of ?t] by (simp add: py_sqrt_def not_less)
  show ?thesis
  proof (cases "Sx sec > 0 \<and> ?ho > 0")
    case True
    have "calc_Lp_Lr sec Fy =
            Inr (1.76 * ry sec * sqrt (E_STEEL / Fy),
                 1.95 * (if rts sec > 0 then rts sec else ry sec) * (E_STEEL / (0.7 * Fy))
                   * sqrt (?t + sqrt (?t ^ 2 + ?k)))"
      unfolding calc_Lp_Lr_def Let_def
      by (simp only: sqrt_E_Fy_returns [OF assms(1)] 1 2 3 bnd_Inr assms(2) if_True True simp_thms)
    then show ?thesis by blast
  next
    case False
    have "calc_Lp_Lr sec Fy =
            Inr (1.76 * ry sec * sqrt (E_STEEL / Fy), 1.76 * ry sec * sqrt (E_STEEL / Fy) * 3)"
      unfolding calc_Lp_Lr_def Let_def
      by (simp only: sqrt_E_Fy_returns [OF assms(1)] bnd_Inr assms(2) if_True if_False False simp_thms)
    then show ?thesis by blast
  qed
qed

lemma flexure_yielding_result:
  assumes "calc_Lp_Lr sec Fy = Inr (Lp, Lr)" and "Lb \<le> Lp"
    and "flange_class cmp = ''Compact''" and "web_class cmp = ''Compact''"
  shows "calc_flexural_strength sec Fy Lb cmp =
           Inr \<lparr>flex_Mp = (if Zx sec > 0 then Fy * Zx sec / 1000000
                            else Fy * Sx sec * 1.12 / 1000000),
                flex_My = Fy * Sx sec / 1000000,
                flex_Lp = Lp, flex_Lr = Lr, flex_Lb = Lb, flex_Cb = 1,
                flex_Mn = (if Zx sec > 0 then Fy * Zx sec / 1000000
                            else Fy * Sx sec * 1.12 / 1000000),
                flex_Mn_allow = (if Zx sec > 0 then Fy * Zx sec / 1000000
                                 else Fy * Sx sec * 1.12 / 1000000) / OMEGA_FLEX,
                flex_limit_state = label_yielding, flex_Rpg = None\<rparr>"
  using assms by (simp add: calc_flexural_strength_def flexure_ltb_def Let_def)

text \<open>
  Claim C8, amended. When \<^verbatim>\<open>calc_Lp_Lr\<close> returns \<open>(Lp, Lr)\<close>, \<open>Lb \<le> Lp\<close>, and the
  flange and the web are both classified Compact, \<^verbatim>\<open>calc_flexural_strength\<close> returns;
  its label is \<^verbatim>\<open>Yielding (Lb <= Lp)\<close> (with the sign U+2264, nothing appended), and
  its nominal moment is the plastic moment: \<open>Fy Zx / 10^6\<close> when \<open>Zx > 0\<close>, and
  \<open>1.12 Fy Sx / 10^6\<close> otherwise.
\<close>

theorem flexure_yielding:
  assumes "calc_Lp_Lr sec Fy = Inr (Lp, Lr)" and "Lb \<le> Lp"
    and "flange_class cmp = ''Compact''" and "web_class cmp = ''Compact''"
  shows "calc_flexural_strength sec Fy Lb cmp =
           Inr \<lparr>flex_Mp = (if Zx sec > 0 then Fy * Zx sec / 1000000
                            else Fy * Sx sec * 1.12 / 1000000),
                flex_My = Fy * Sx sec / 1000000,
                flex_Lp = Lp, flex_Lr = Lr, flex_Lb = Lb, flex_Cb = 1,
                flex_Mn = (if Zx sec > 0 then Fy * Zx sec / 1000000
                            else Fy * Sx sec * 1.12 / 1000000),
                flex_Mn_allow = (if Zx sec > 0 then Fy * Zx sec / 1000000
                                 else Fy * Sx sec * 1.12 / 1000000) / OMEGA_FLEX,
                flex_limit_state = ''Yielding (Lb '' @ [CHR 0xE2, CHR 0x89, CHR 0xA4] @ '' Lp)'',
                flex_Rpg = None\<rparr>"
  using flexure_yielding_result [OF assms] by (simp add: label_yielding_def)

lemma sqrt_625: "sqrt 625 = 25"
  by (rule real_sqrt_unique) simp_all

lemma example_compactness_checked:
  "check_compactness example_compact_section 320 = Inr example_compactness"
  by (simp add: check_compactness_def sqrt_E_Fy_def py_div_def py_sqrt_def E_STEEL_def
      sqrt_625 Let_def example_compact_section_def example_compactness_def Section_default_def)

lemma example_Lp:
  "\<exists>Lr. calc_Lp_Lr (example_compact_section\<lparr>Zx := z\<rparr>) 320 = Inr (440, Lr)"
proof -
  have "(0::real) < 320" by simp
  moreover have "0 < ry (example_compact_section\<lparr>Zx := z\<rparr>)"
    by (simp add: example_compact_section_def)
  ultimately obtain Lr where
    "calc_Lp_Lr (example_compact_section\<lparr>Zx := z\<rparr>) 320
       = Inr (1.76 * ry (example_compact_section\<lparr>Zx := z\<rparr>) * sqrt (E_STEEL / 320), Lr)"
    using calc_Lp_Lr_returns by blast
  then show ?thesis
    by (simp add: example_compact_section_def E_STEEL_def sqrt_625)
qed

text \<open>
  Claim C8 as stated fails on two points. For the example section, classified compact
  in flange and web by \<^verbatim>\<open>check_compactness\<close> and with \<open>Lb = 400 \<le> Lp = 440\<close>, the label
  is the string \<^verbatim>\<open>Yielding (Lb <= Lp)\<close> (with the sign U+2264), which is not the string
  \<^verbatim>\<open>Yielding\<close>. With \<open>Zx = 0\<close> the nominal moment is \<open>1.12 Fy Sx / 10^6 = 322.56\<close>, not
  \<open>Fy Zx = 0\<close>.
\<close>

theorem flexure_yielding_counterexample:
  "check_compactness example_compact_section 320 = Inr example_compactness
   \<and> flange_class example_compactness = ''Compact''
   \<and> web_class example_compactness = ''Compact''
   \<and> map_sum id flex_limit_state
        (calc_flexural_strength example_compact_section 320 400 example_compactness)
       = Inr (''Yielding (Lb '' @ [CHR 0xE2, CHR 0x89, CHR 0xA4] @ '' Lp)'')
   \<and> ''Yielding (Lb '' @ [CHR 0xE2, CHR 0x89, CHR 0xA4] @ '' Lp)'' \<noteq> ''Yielding''
   \<and> map_sum id flex_Mn
        (calc_flexural_strength (example_compact_section\<lparr>Zx := 0\<rparr>) 320 400 example_compactness)
       = Inr 322.56
   \<and> 320 * Zx (example_compact_section\<lparr>Zx := 0\<rparr>) = 0"
proof -
  have c: "flange_class example_compactness = ''Compact''"
      "web_class example_compactness = ''Compact''"
    by (simp_all add: example_compactness_def)
  obtain Lr where 1: "calc_Lp_Lr (example_compact_section\<lparr>Zx := 1000000\<rparr>) 320 = Inr (440, Lr)"
    using example_Lp by blast
  have e: "example_compact_section\<lparr>Zx := 1000000\<rparr> = example_compact_section"
    by (simp add: example_compact_section_def)
  obtain Lr0 where 2: "calc_Lp_Lr (example_compact_section\<lparr>Zx := 0\<rparr>) 320 = Inr (440, Lr0)"
    using example_Lp by blast
  have le: "(400::real) \<le> 440" by simp
  have a: "map_sum id flex_limit_state
        (calc_flexural_strength example_compact_section 320 400 example_compactness)
       = Inr (''Yielding (Lb '' @ [CHR 0xE2, CHR 0x89, CHR 0xA4] @ '' Lp)'')"
    using flexure_yielding_result [OF 1 le c] by (simp add: e label_yielding_def)
  have b: "map_sum id flex_Mn
        (calc_flexural_strength (example_compact_section\<lparr>Zx := 0\<rparr>) 320 400 example_compactness)
       = Inr 322.56"
    using flexure_yielding_result [OF 2 le c] by (simp add: example_compact_section_def)
  show ?thesis
    using a b c example_compactness_checked by simp
qed

text \<open>Claim C8 amended, at the example section with \<open>Fy = 320\<close> and \<open>Lb = 400\<close>: the
  nominal moment is \<open>320 * 1000000 / 10^6 = 320\<close>.\<close>

theorem flexure_yielding_witness:
  "\<exists>Lr. calc_Lp_Lr example_compact_section 320 = Inr (440, Lr)
      \<and> (400::real) \<le> 440
      \<and> flange_class example_compactness = ''Compact''
      \<and> web_class example_compactness = ''Compact''
      \<and> map_sum id flex_Mn
           (calc_flexural_strength example_compact_section 320 400 example_compactness)
          = Inr (320 * Zx example_compact_section / 1000000)
      \<and> map_sum id flex_Mn
           (calc_flexural_strength example_compact_section 320 400 example_compactness)
          = Inr 320"
proof -
  have c: "flange_class example_compactness = ''Compact''"
      "web_class example_compactness = ''Compact''"
    by (simp_all add: example_compactness_def)
  have e: "example_compact_section\<lparr>Zx := 1000000\<rparr> = example_compact_section"
    by (simp add: example_compact_section_def)
  obtain Lr where 1: "calc_Lp_Lr example_compact_section 320 = Inr (440, Lr)"
    using example_Lp [of 1000000] by (auto simp add: e)
  have le: "(400::real) \<le> 440" by simp
  have z: "Zx example_compact_section = 1000000" by (simp add: example_compact_section_def)
  have "map_sum id flex_Mn
           (calc_flexural_strength example_compact_section 320 400 example_compactness)
          = Inr 320"
    using flexure_yielding [OF 1 le c] by (simp add: z)
  with 1 le c z show ?thesis by auto
qed


lemma fatigue_threshold_positive:
  assumes "FATIGUE_CATEGORIES category = Some c"
  shows "0 < FTH c"
  using assms by (auto simp add: FATIGUE_CATEGORIES_def split: if_splits)

lemma fatigue_constant_positive:
  assumes "FATIGUE_CATEGORIES category = Some c"
  shows "0 < Cf c"
  using assms by (auto simp add: FATIGUE_CATEGORIES_def split: if_splits)

lemma check_fatigue_zero_modulus:
  assumes "Sx sec \<le> 0" and "0 < N_cycles"
  shows "map_sum id fat_f_sr (check_fatigue sec M_range N_cycles category) = Inr 0"
    and "map_sum id fat_ratio (check_fatigue sec M_range N_cycles category) = Inr 0"
    and "map_sum id fat_status (check_fatigue sec M_range N_cycles category) = Inr ''OK''"
proof -
  let ?cat = "case FATIGUE_CATEGORIES category of Some c \<Rightarrow> c
              | None \<Rightarrow> the (FATIGUE_CATEGORIES ''E'')"
  have "\<exists>k. FATIGUE_CATEGORIES k = Some ?cat"
  proof (cases "FATIGUE_CATEGORIES category")
    case None
    then have "FATIGUE_CATEGORIES ''E'' = Some ?cat" by (simp add: E_category)
    then show ?thesis by (rule exI)
  next
    case (Some c)
    then have "FATIGUE_CATEGORIES category = Some ?cat" by simp
    then show ?thesis by (rule exI)
  qed
  then have pos: "0 < FTH ?cat" "0 < Cf ?cat"
    using fatigue_threshold_positive fatigue_constant_positive by blast+
  have q: "\<not> Cf ?cat / real_of_int N_cycles < 0"
    using pos(2) assms(2) by (simp add: not_less)
  have F: "0 < max ((Cf ?cat / real_of_int N_cycles) powr (1 / 3)) (FTH ?cat)"
    using pos(1) by (simp add: less_max_iff_disj)
  have nz: "real_of_int N_cycles \<noteq> 0" using assms(2) by simp
  have S: "\<not> 0 < Sx sec" using assms(1) by simp
  show "map_sum id fat_f_sr (check_fatigue sec M_range N_cycles category) = Inr 0"
    unfolding check_fatigue_def Let_def py_div_def
    by (simp only: nz q F S if_False if_True bnd_Inr) simp
  show "map_sum id fat_ratio (check_fatigue sec M_range N_cycles category) = Inr 0"
    unfolding check_fatigue_def Let_def py_div_def
    by (simp only: nz q F S if_False if_True bnd_Inr) simp
  show "map_sum id fat_status (check_fatigue sec M_range N_cycles category) = Inr ''OK''"
    unfolding check_fatigue_def Let_def py_div_def
    by (simp only: nz q F S if_False if_True bnd_Inr) (simp add: status_of_def)
qed

lemma web_yielding_sentinel:
  "wly_Rn_allow (check_web_local_yielding sec Fy R lb at_sup) \<le> 0
     \<Longrightarrow> wly_ratio (check_web_local_yielding sec Fy R lb at_sup) = 999"
  by (simp add: check_web_local_yielding_def Let_def)

lemma web_yielding_zero_web:
  "tw sec = 0 \<Longrightarrow> wly_ratio (check_web_local_yielding sec Fy R lb at_sup) = 999"
  by (simp add: check_web_local_yielding_def Let_def)

lemma web_crippling_sentinel:
  assumes "check_web_crippling sec Fy R lb at_sup = Inr res" and "wcr_Rn_allow res \<le> 0"
  shows "wcr_ratio res = 999 \<and> wcr_status res = ''NG''"
proof -
  from assms(1) obtain Rn where "res = crippling_result R lb Rn"
    unfolding check_web_crippling_def check_web_crippling_with_def Let_def bnd_def by (auto split: sum.splits)
  with assms(2) show ?thesis
    by (simp add: crippling_result_def Let_def status_of_def)
qed

lemma kv_positive:
  fixes spa hw' :: real
  shows "0 < (if hs \<and> spa > 0 \<and> hw' > 0
              then (let a_h = spa / hw' in if a_h \<le> 3 then 5 + 5 / a_h ^ 2 else 5.34)
              else 5.34)"
proof -
  have "(0::real) \<le> 5 / (spa / hw') ^ 2" by simp
  then have "(0::real) < 5 + 5 / (spa / hw') ^ 2" by linarith
  then show ?thesis by (simp add: Let_def)
qed

lemma three_regimes_return:
  fixes a a3 b2 :: real
  assumes "b2 \<noteq> 0"
  shows "\<exists>Cv1 ls. (if c1 then Inr (1, s1)
                    else if c2 then bnd (py_div a 999) (\<lambda>c. Inr (c, s2))
                    else bnd (py_div a3 b2) (\<lambda>c. Inr (c, s3))) = Inr (Cv1::real, ls::string)"
proof -
  have 1: "py_div a 999 = Inr (a / 999)" by (simp add: py_div_def)
  have 2: "py_div a3 b2 = Inr (a3 / b2)" using assms by (simp add: py_div_def)
  show ?thesis
    by (cases c1; cases c2) (simp_all only: 1 2 bnd_Inr if_True if_False, blast+)
qed

lemma shear_zero_web:
  assumes "tw sec \<le> 0" and "0 < Fy" and "\<not> use_tfa"
  shows "\<exists>Cv1 ls kv. calc_shear_strength sec Fy hs spa use_tfa =
           Inr \<lparr>shear_Aw = (if hw sec > 0 then hw sec else d sec - 2 * tf sec) * tw sec,
                shear_h_tw = 999, shear_kv = kv, shear_Cv1 = Cv1,
                shear_Vn = 0.6 * Fy * ((if hw sec > 0 then hw sec else d sec - 2 * tf sec) * tw sec)
                             * Cv1 / 1000,
                shear_Vn_allow =
                  0.6 * Fy * ((if hw sec > 0 then hw sec else d sec - 2 * tf sec) * tw sec)
                    * Cv1 / 1000 / OMEGA_SHEAR,
                shear_limit_state = ls\<rparr>"
proof -
  let ?hw = "if hw sec > 0 then hw sec else d sec - 2 * tf sec"
  let ?kv = "if hs \<and> spa > 0 \<and> ?hw > 0
             then (if spa / ?hw \<le> 3 then 5 + 5 / (spa / ?hw) ^ 2 else 5.34)
             else 5.34"
  have kv: "0 < ?kv" using kv_positive [of hs spa ?hw] by (simp only: Let_def)
  have tw: "\<not> 0 < tw sec" using assms(1) by simp
  have q: "py_div (?kv * E_STEEL) Fy = Inr (?kv * E_STEEL / Fy)"
    using assms(2) by (simp add: py_div_def)
  have "0 \<le> ?kv * E_STEEL / Fy"
    using kv assms(2) by (simp add: E_STEEL_def)
  then have rt: "py_sqrt (?kv * E_STEEL / Fy) = Inr (sqrt (?kv * E_STEEL / Fy))"
    by (simp add: py_sqrt_def not_less)
  let ?rt = "sqrt (?kv * E_STEEL / Fy)"
  let ?B = "if (999::real) \<le> 1.10 * ?rt then Inr (1, ''Shear Yielding'')
            else if 999 \<le> 1.37 * ?rt then
              bnd (py_div (1.10 * ?rt) 999) (\<lambda>c. Inr (c, ''Inelastic Buckling''))
            else
              bnd (py_div (1.51 * ?kv * E_STEEL) (999 ^ 2 * Fy)) (\<lambda>c.
                Inr (c, ''Elastic Buckling''))"
  have "(999::real) ^ 2 * Fy \<noteq> 0" using assms(2) by simp
  then have "\<exists>Cv1 ls. ?B = Inr (Cv1, ls)"
    by (rule three_regimes_return)
  then obtain Cv1 ls where B: "?B = Inr (Cv1, ls)" by blast
  have "calc_shear_strength sec Fy hs spa use_tfa =
           Inr \<lparr>shear_Aw = ?hw * tw sec, shear_h_tw = 999, shear_kv = ?kv, shear_Cv1 = Cv1,
                shear_Vn = 0.6 * Fy * (?hw * tw sec) * Cv1 / 1000,
                shear_Vn_allow = 0.6 * Fy * (?hw * tw sec) * Cv1 / 1000 / OMEGA_SHEAR,
                shear_limit_state = ls\<rparr>"
    unfolding calc_shear_strength_def Let_def
    by (simp only: tw if_False q rt bnd_Inr B assms(3) simp_thms prod.case)
  then show ?thesis by blast
qed


text \<open>
  Claim C5, amended. \<^verbatim>\<open>check_web_local_yielding\<close> never raises and returns the ratio
  999 whenever its allowable capacity is not positive, in particular for a web thickness
  of zero. \<^verbatim>\<open>check_web_crippling\<close>, when it returns with an allowable capacity that is
  not positive, returns the ratio 999 and the status NG. \<^verbatim>\<open>calc_shear_strength\<close>, for a
  web thickness that is not positive, a positive yield stress and no tension field
  action, returns with the slenderness 999; its dict has no ratio; for a web
  thickness of zero its allowable strength is 0 and the ratio its caller forms is 999.
  \<^verbatim>\<open>check_fatigue\<close>, for a section modulus that is not positive and a positive number
  of cycles, returns the stress range 0, the ratio 0 and the status OK.
\<close>

theorem degenerate_inputs_checks:
  "(wly_Rn_allow (check_web_local_yielding sec Fy R lb at_sup) \<le> 0 \<longrightarrow>
      wly_ratio (check_web_local_yielding sec Fy R lb at_sup) = 999)
   \<and> (tw sec = 0 \<longrightarrow> wly_ratio (check_web_local_yielding sec Fy R lb at_sup) = 999)
   \<and> (\<forall>res. check_web_crippling sec Fy R lb at_sup = Inr res \<and> wcr_Rn_allow res \<le> 0 \<longrightarrow>
         wcr_ratio res = 999 \<and> wcr_status res = ''NG'')
   \<and> (tw sec \<le> 0 \<and> 0 < Fy \<and> \<not> use_tfa \<longrightarrow>
         map_sum id shear_h_tw (calc_shear_strength sec Fy hs spa use_tfa) = Inr 999)
   \<and> (tw sec = 0 \<and> 0 < Fy \<and> \<not> use_tfa \<longrightarrow>
         map_sum id shear_Vn_allow (calc_shear_strength sec Fy hs spa use_tfa) = Inr 0
         \<and> map_sum id (shear_ratio V) (calc_shear_strength sec Fy hs spa use_tfa) = Inr 999)
   \<and> (Sx sec \<le> 0 \<and> 0 < N_cycles \<longrightarrow>
         map_sum id fat_f_sr (check_fatigue sec M_range N_cycles category) = Inr 0
         \<and> map_sum id fat_ratio (check_fatigue sec M_range N_cycles category) = Inr 0
         \<and> map_sum id fat_status (check_fatigue sec M_range N_cycles category) = Inr ''OK'')"
proof (intro conjI impI allI)
  assume "wly_Rn_allow (check_web_local_yielding sec Fy R lb at_sup) \<le> 0"
  then show "wly_ratio (check_web_local_yielding sec Fy R lb at_sup) = 999"
    by (rule web_yielding_sentinel)
next
  assume "tw sec = 0"
  then show "wly_ratio (check_web_local_yielding sec Fy R lb at_sup) = 999"
    by (rule web_yielding_zero_web)
next
  fix res
  assume h: "check_web_crippling sec Fy R lb at_sup = Inr res \<and> wcr_Rn_allow res \<le> 0"
  then show "wcr_ratio res = 999" using web_crippling_sentinel [of sec Fy R lb at_sup res] by simp
  from h show "wcr_status res = ''NG''"
    using web_crippling_sentinel [of sec Fy R lb at_sup res] by simp
next
  assume h: "tw sec \<le> 0 \<and> 0 < Fy \<and> \<not> use_tfa"
  then obtain Cv1 ls kv where
    "calc_shear_strength sec Fy hs spa use_tfa =
           Inr \<lparr>shear_Aw = (if hw sec > 0 then hw sec else d sec - 2 * tf sec) * tw sec,
                shear_h_tw = 999, shear_kv = kv, shear_Cv1 = Cv1,
                shear_Vn = 0.6 * Fy * ((if hw sec > 0 then hw sec else d sec - 2 * tf sec) * tw sec)
                             * Cv1 / 1000,
                shear_Vn_allow =
                  0.6 * Fy * ((if hw sec > 0 then hw sec else d sec - 2 * tf sec) * tw sec)
                    * Cv1 / 1000 / OMEGA_SHEAR,
                shear_limit_state = ls\<rparr>"
    using shear_zero_web [of sec Fy use_tfa hs spa] by blast
  then show "map_sum id shear_h_tw (calc_shear_strength sec Fy hs spa use_tfa) = Inr 999"
    by simp
next
  assume h: "tw sec = 0 \<and> 0 < Fy \<and> \<not> use_tfa"
  then obtain Cv1 ls kv where *:
    "calc_shear_strength sec Fy hs spa use_tfa =
           Inr \<lparr>shear_Aw = (if hw sec > 0 then hw sec else d sec - 2 * tf sec) * tw sec,
                shear_h_tw = 999, shear_kv = kv, shear_Cv1 = Cv1,
                shear_Vn = 0.6 * Fy * ((if hw sec > 0 then hw sec else d sec - 2 * tf sec) * tw sec)
                             * Cv1 / 1000,
                shear_Vn_allow =
                  0.6 * Fy * ((if hw sec > 0 then hw sec else d sec - 2 * tf sec) * tw sec)
                    * Cv1 / 1000 / OMEGA_SHEAR,
                shear_limit_state = ls\<rparr>"
    using shear_zero_web [of sec Fy use_tfa hs spa] by force
  from h have z: "tw sec = 0" by simp
  show "map_sum id shear_Vn_allow (calc_shear_strength sec Fy hs spa use_tfa) = Inr 0"
    by (simp add: * z)
  show "map_sum id (shear_ratio V) (calc_shear_strength sec Fy hs spa use_tfa) = Inr 999"
    by (simp add: * z shear_ratio_def)
next
  assume h: "Sx sec \<le> 0 \<and> 0 < N_cycles"
  then have a: "Sx sec \<le> 0" and b: "0 < N_cycles" by simp_all
  show "map_sum id fat_f_sr (check_fatigue sec M_range N_cycles category) = Inr 0"
    by (rule check_fatigue_zero_modulus(1) [OF a b])
  show "map_sum id fat_ratio (check_fatigue sec M_range N_cycles category) = Inr 0"
    by (rule check_fatigue_zero_modulus(2) [OF a b])
  show "map_sum id fat_status (check_fatigue sec M_range N_cycles category) = Inr ''OK''"
    by (rule check_fatigue_zero_modulus(3) [OF a b])
qed

text \<open>
  Claim C5 as stated fails. With a section modulus of zero \<^verbatim>\<open>check_fatigue\<close> returns
  the ratio 0 and the status OK, not a failure sentinel. With a web thickness of zero
  \<^verbatim>\<open>check_web_crippling\<close> raises ZeroDivisionError.
\<close>

theorem degenerate_inputs_counterexample:
  "Sx Section_default = 0
   \<and> map_sum id fat_ratio (check_fatigue Section_default 100 2000000 ''E'') = Inr 0
   \<and> map_sum id fat_status (check_fatigue Section_default 100 2000000 ''E'') = Inr ''OK''
   \<and> tw (Section_default\<lparr>d := 500, tf := 10\<rparr>) = 0
   \<and> check_web_crippling (Section_default\<lparr>d := 500, tf := 10\<rparr>) 345 300 100 True
       = Inl ZeroDivisionError"
proof -
  have s: "Sx Section_default \<le> 0" by (simp add: Section_default_def)
  have n: "(0::int) < 2000000" by simp
  have c: "check_web_crippling (Section_default\<lparr>d := 500, tf := 10\<rparr>) 345 300 100 True
       = Inl ZeroDivisionError"
    by (simp add: check_web_crippling_def check_web_crippling_with_def crippling_Rn_def crippling_tf_def py_div_def
        Let_def Section_default_def)
  show ?thesis
    using check_fatigue_zero_modulus(2,3) [OF s n, of 100 "''E''"] c
    by (simp add: Section_default_def)
qed

text \<open>Claim C5 amended: a section with \<open>tw = 0\<close> and \<open>Sx = 0\<close> for the yielding, shear
  and fatigue checks, and a yield stress of zero for the crippling check.\<close>

theorem degenerate_inputs_checks_witness:
  "tw (Section_default\<lparr>d := 500, tf := 10\<rparr>) = 0
   \<and> wly_ratio (check_web_local_yielding (Section_default\<lparr>d := 500, tf := 10\<rparr>) 345 300 100 True)
       = 999
   \<and> check_web_crippling (Section_default\<lparr>d := 500, tf := 10, tw := 10\<rparr>) 0 300 100 True
       = Inr (crippling_result 300 100 0)
   \<and> wcr_ratio (crippling_result 300 100 0) = 999
   \<and> map_sum id (shear_ratio 200)
        (calc_shear_strength (Section_default\<lparr>d := 500, tf := 10\<rparr>) 345 False 0 False) = Inr 999
   \<and> map_sum id fat_ratio (check_fatigue (Section_default\<lparr>d := 500, tf := 10\<rparr>) 100 2000000 ''E'')
       = Inr 0"
proof -
  let ?s0 = "Section_default\<lparr>d := 500, tf := 10\<rparr>"
  let ?s1 = "Section_default\<lparr>d := 500, tf := 10, tw := 10\<rparr>"
  have tw0: "tw ?s0 = 0" by (simp add: Section_default_def)
  have sx0: "Sx ?s0 \<le> 0" by (simp add: Section_default_def)
  have cr: "check_web_crippling ?s1 0 300 100 True = Inr (crippling_result 300 100 0)"
    by (simp add: check_web_crippling_def check_web_crippling_with_def crippling_Rn_def crippling_tf_def py_div_def
        py_sqrt_def Let_def Section_default_def)
  have ra: "wcr_Rn_allow (crippling_result 300 100 0) \<le> 0"
    by (simp add: crippling_result_def Let_def)
  note t0 = degenerate_inputs_checks [of ?s0 345 300 100 True False False 0 200 2000000 100 "''E''"]
  note t1 = degenerate_inputs_checks [of ?s1 0 300 100 True False False 0 200 2000000 100 "''E''"]
  from t0 tw0 have p1: "wly_ratio (check_web_local_yielding ?s0 345 300 100 True) = 999"
    by blast
  from t1 cr ra have p2: "wcr_ratio (crippling_result 300 100 0) = 999" by blast
  have "tw ?s0 = 0 \<and> (0::real) < 345 \<and> \<not> False" using tw0 by simp
  with t0 have p3: "map_sum id (shear_ratio 200) (calc_shear_strength ?s0 345 False 0 False) = Inr 999"
    by blast
  have "Sx ?s0 \<le> 0 \<and> (0::int) < 2000000" using sx0 by simp
  with t0 have p4: "map_sum id fat_ratio (check_fatigue ?s0 100 2000000 ''E'') = Inr 0"
    by blast
  from tw0 p1 cr p2 p3 p4 show ?thesis by blast
qed


end
